theory Spec2Isabelle
  imports Complex_Main
begin

section \<open>Parameters of the TEEEIV model\<close>

text \<open>
  The module keeps its parameters as attributes of the class \<open>_Par\<close>. The model is a
  record that is passed to, and returned by, every function that reads or writes them;
  the private attributes \<open>_nT\<close>, ..., \<open>_onset_time\<close> are the fields \<open>nT\<close>, ..., \<open>onset_time\<close>.
  Python's floats are modelled as exact reals: rounding error, overflow and the
  non-finite floats are outside the model. Where the source divides by zero the model
  says what the source does there (an exception of Python's float division, or a
  non-finite entry of a numpy array).
\<close>

datatype error = ZeroDivisionError | ValueError | IndexError | SystemExit | NonFiniteResult

text \<open>A Python value as far as the parameter code distinguishes them: a string or a float.\<close>

datatype pyval = Str string | Num real

record par =
  N :: real
  tauT :: real
  sigmaT :: real
  nT :: nat
  s :: real
  dD :: real
  beta :: real
  V0 :: real
  c :: real
  onedaydilution :: real
  tauEE :: real
  sigmaEE :: real
  nEE :: nat
  dEE :: real
  fEE :: real
  EFAV_time :: real
  tauER :: real
  sigmaER :: real
  nER :: nat
  dER :: real
  fER :: real
  RALT_time :: real
  tauEI :: real
  sigmaEI :: real
  nEI :: nat
  dEI :: real
  fEI :: real
  deathtype :: pyval
  tauP :: real
  sigmaP :: real
  nP :: nat
  dP :: real
  onset_time :: real


section \<open>Stage counts: \<open>checkpars\<close> and \<open>setpars\<close>\<close>

text \<open>
  \<open>round\<close> of a float, in the Python 2 the module is written for (\<open>print_function\<close> from
  \<open>__future__\<close>, \<open>items().sort()\<close>): halves are rounded away from zero.
\<close>

definition py_round :: "real \<Rightarrow> int" where
  "py_round x = (if 0 \<le> x then \<lfloor>x + 1 / 2\<rfloor> else \<lceil>x - 1 / 2\<rceil>)"

text \<open>
  \<open>checkpars\<close> (lines 97 to 120) overwrites \<open>_nT, sigmaT\<close>, then \<open>_nEE, sigmaEE\<close>, and so on,
  one assignment after the other. The float division \<open>tau/sigma\<close> raises
  \<open>ZeroDivisionError\<close> at \<open>sigma = 0\<close>, and an unknown \<open>deathtype\<close> ends in \<open>sys.exit()\<close>; in
  both cases the assignments made before stay. The model returns the parameters as they
  are when the function stops, and the exception raised, if any.
  \<open>stage_count tau sigma\<close> is the expression \<open>int(max(1,round((tau/sigma)**2)))\<close> and
  \<open>stage_sigma tau n\<close> is \<open>math.sqrt(tau**2/n)\<close>, which the source writes out for each
  of the five phases.
\<close>

definition stage_count :: "real \<Rightarrow> real \<Rightarrow> nat" where
  "stage_count tau sigma = nat (max 1 (py_round ((tau / sigma)\<^sup>2)))"

definition stage_sigma :: "real \<Rightarrow> nat \<Rightarrow> real" where
  "stage_sigma tau n = sqrt (tau\<^sup>2 / real n)"

definition checkpars :: "par \<Rightarrow> par \<times> error option" where
  "checkpars p0 =
    (if sigmaT p0 = 0 then (p0, Some ZeroDivisionError) else
     let p1 = p0\<lparr>nT := stage_count (tauT p0) (sigmaT p0)\<rparr>;
         p2 = p1\<lparr>sigmaT := stage_sigma (tauT p1) (nT p1)\<rparr> in
     if sigmaEE p2 = 0 then (p2, Some ZeroDivisionError) else
     let p3 = p2\<lparr>nEE := stage_count (tauEE p2) (sigmaEE p2)\<rparr>;
         p4 = p3\<lparr>sigmaEE := stage_sigma (tauEE p3) (nEE p3)\<rparr> in
     if sigmaER p4 = 0 then (p4, Some ZeroDivisionError) else
     let p5 = p4\<lparr>nER := stage_count (tauER p4) (sigmaER p4)\<rparr>;
         p6 = p5\<lparr>sigmaER := stage_sigma (tauER p5) (nER p5)\<rparr> in
     if sigmaEI p6 = 0 then (p6, Some ZeroDivisionError) else
     let p7 = p6\<lparr>nEI := stage_count (tauEI p6) (sigmaEI p6)\<rparr>;
         p8 = p7\<lparr>sigmaEI := stage_sigma (tauEI p7) (nEI p7)\<rparr> in
     if deathtype p8 = Str ''exp'' then
       (p8\<lparr>nP := 1, sigmaP := tauP p8\<rparr>, None)
     else if deathtype p8 = Str ''gamma'' then
       (if sigmaP p8 = 0 then (p8, Some ZeroDivisionError) else
        let p9 = p8\<lparr>nP := stage_count (tauP p8) (sigmaP p8)\<rparr> in
        (p9\<lparr>sigmaP := stage_sigma (tauP p9) (nP p9)\<rparr>, None))
     else (p8, Some SystemExit))"

text \<open>
  \<open>float(v)\<close>: a float stays, a string is parsed. The parser of Python's builtin is the
  parameter \<open>pf\<close> (\<open>None\<close> where the builtin raises \<open>ValueError\<close>).
\<close>

definition py_float :: "(string \<Rightarrow> real option) \<Rightarrow> pyval \<Rightarrow> error + real" where
  "py_float pf v =
    (case v of
       Num r \<Rightarrow> Inr r
     | Str str \<Rightarrow> (case pf str of Some r \<Rightarrow> Inr r | None \<Rightarrow> Inl ValueError))"

text \<open>
  \<open>setattr(_Par, kw, x)\<close> with a float \<open>x\<close>, on the attributes the model has. Every
  attribute receives the float, \<open>deathtype\<close> too. The record leaves out \<open>tprior\<close>, \<open>tend\<close>
  and \<open>Nsteps\<close>, which only \<open>gettimes\<close> reads; setting them, or a name that is no
  parameter, changes no field of the record. The derived counts \<open>_nT\<close>, ... are not
  settable in the model: \<open>checkpars\<close>, which \<open>setpars\<close> calls, overwrites them.
\<close>

definition setattr_Par :: "string \<Rightarrow> real \<Rightarrow> par \<Rightarrow> par" where
  "setattr_Par kw x p =
    (if kw = ''N'' then p\<lparr>N := x\<rparr>
     else if kw = ''tauT'' then p\<lparr>tauT := x\<rparr>
     else if kw = ''sigmaT'' then p\<lparr>sigmaT := x\<rparr>
     else if kw = ''s'' then p\<lparr>s := x\<rparr>
     else if kw = ''dD'' then p\<lparr>dD := x\<rparr>
     else if kw = ''beta'' then p\<lparr>beta := x\<rparr>
     else if kw = ''V0'' then p\<lparr>V0 := x\<rparr>
     else if kw = ''c'' then p\<lparr>c := x\<rparr>
     else if kw = ''onedaydilution'' then p\<lparr>onedaydilution := x\<rparr>
     else if kw = ''tauEE'' then p\<lparr>tauEE := x\<rparr>
     else if kw = ''sigmaEE'' then p\<lparr>sigmaEE := x\<rparr>
     else if kw = ''dEE'' then p\<lparr>dEE := x\<rparr>
     else if kw = ''fEE'' then p\<lparr>fEE := x\<rparr>
     else if kw = ''EFAV_time'' then p\<lparr>EFAV_time := x\<rparr>
     else if kw = ''tauER'' then p\<lparr>tauER := x\<rparr>
     else if kw = ''sigmaER'' then p\<lparr>sigmaER := x\<rparr>
     else if kw = ''dER'' then p\<lparr>dER := x\<rparr>
     else if kw = ''fER'' then p\<lparr>fER := x\<rparr>
     else if kw = ''RALT_time'' then p\<lparr>RALT_time := x\<rparr>
     else if kw = ''tauEI'' then p\<lparr>tauEI := x\<rparr>
     else if kw = ''sigmaEI'' then p\<lparr>sigmaEI := x\<rparr>
     else if kw = ''dEI'' then p\<lparr>dEI := x\<rparr>
     else if kw = ''fEI'' then p\<lparr>fEI := x\<rparr>
     else if kw = ''deathtype'' then p\<lparr>deathtype := Num x\<rparr>
     else if kw = ''tauP'' then p\<lparr>tauP := x\<rparr>
     else if kw = ''sigmaP'' then p\<lparr>sigmaP := x\<rparr>
     else if kw = ''dP'' then p\<lparr>dP := x\<rparr>
     else if kw = ''_onset_time'' then p\<lparr>onset_time := x\<rparr>
     else p)"

text \<open>
  The loop of \<open>setpars\<close> (lines 93 and 94) over the keyword arguments, in the order the
  dictionary yields them. \<open>float\<close> is evaluated before \<open>setattr\<close>: at a \<open>ValueError\<close> the
  attributes set so far stay and the loop is left.
\<close>

fun setpars_loop ::
  "(string \<Rightarrow> real option) \<Rightarrow> (string \<times> pyval) list \<Rightarrow> par \<Rightarrow> par \<times> error option" where
  "setpars_loop pf [] p = (p, None)"
| "setpars_loop pf ((kw, v) # kwdargs) p =
    (case py_float pf v of
       Inl e \<Rightarrow> (p, Some e)
     | Inr x \<Rightarrow> setpars_loop pf kwdargs (setattr_Par kw x p))"

definition setpars ::
  "(string \<Rightarrow> real option) \<Rightarrow> (string \<times> pyval) list \<Rightarrow> par \<Rightarrow> par \<times> error option" where
  "setpars pf kwdargs p =
    (case setpars_loop pf kwdargs p of
       (p', Some e) \<Rightarrow> (p', Some e)
     | (p', None) \<Rightarrow> checkpars p')"


text \<open>
  \<open>getICs\<close> (lines 341 to 353): the whole population in the uninfected column of the
  first segment. \<open>x[0] = N\<close> is in range, the vector having at least two entries.
\<close>

definition getICs :: "par \<Rightarrow> real list" where
  "getICs p =
    (if deathtype p = Str ''gamma'' then
       (let nlive = 1 + nEE p + nER p + nEI p + nP p
        in (replicate (nT p * nlive + 2) 0)[0 := N p])
     else
       (let nlive = 1 + nEE p + nER p + nEI p + 1
        in (replicate (nT p * nlive + 2) 0)[0 := N p]))"

text \<open>
  The script (lines 453 to 457) calls \<open>checkpars()\<close>, then \<open>getICs()\<close>, and hands the result to
  \<open>evolve\<close>. \<open>main_until_evolve\<close> is the script up to that call: the exception that ended
  it, or the parameters and the initial state the integrator is called with.
\<close>

definition main_until_evolve :: "par \<Rightarrow> error + par \<times> real list" where
  "main_until_evolve p =
    (case checkpars p of
       (p', Some e) \<Rightarrow> Inl e
     | (p', None) \<Rightarrow> Inr (p', getICs p'))"

text \<open>
  The parameters as the class body (lines 18 to 89) leaves them: every stage count is
  \<open>int(round((6.0/3.0)**2)) = 4\<close> and every \<open>sigma\<close> is \<open>sqrt(36/4) = 3\<close>.
\<close>

definition Par_init :: par where
  "Par_init =
    \<lparr>N = 300000, tauT = 6, sigmaT = 3, nT = 4, s = 0, dD = 1 / 1000,
     beta = 1 / 100, V0 = 1 / 1000, c = 1 / 10, onedaydilution = 0,
     tauEE = 6, sigmaEE = 3, nEE = 4, dEE = 1 / 1000, fEE = 1 / 1000, EFAV_time = 1000000,
     tauER = 6, sigmaER = 3, nER = 4, dER = 1 / 1000, fER = 1 / 1000, RALT_time = 1000000,
     tauEI = 6, sigmaEI = 3, nEI = 4, dEI = 1 / 1000, fEI = 1 / 1000,
     deathtype = Str ''exp'', tauP = 6, sigmaP = 3, nP = 4, dP = 1 / 1000,
     onset_time = 1 / 10\<rparr>"

text \<open>
  The same parameters after \<open>setpars(sigmaT=6, sigmaEE=6, sigmaER=6, sigmaEI=6)\<close>: one
  stage for every phase, so that a state has seven entries.
\<close>

definition Par_one :: par where
  "Par_one =
    Par_init\<lparr>sigmaT := 6, nT := 1, sigmaEE := 6, nEE := 1, sigmaER := 6, nER := 1,
      sigmaEI := 6, nEI := 1, sigmaP := 6, nP := 1\<rparr>"

section \<open>The right-hand side of the ODE\<close>

text \<open>
  \<open>X[X<0] = 0\<close> (lines 156 and 258) overwrites the negative entries of the caller's array;
  everything after it reads the clamped array.
\<close>

definition clamp_neg :: "real list \<Rightarrow> real list" where
  "clamp_neg X = map (\<lambda>x. if x < 0 then 0 else x) X"

text \<open>
  The virus concentration (lines 142 to 154 and 244 to 256). \<open>t\<close> and the parameters are
  Python floats, so the division by \<open>2.0*_onset_time**2\<close> raises at zero.
\<close>

definition Virus_at :: "par \<Rightarrow> real \<Rightarrow> error + real" where
  "Virus_at p t =
    (if t < 0 then
       (if 2 * (onset_time p)\<^sup>2 = 0 then Inl ZeroDivisionError
        else Inr (V0 p * exp (- t * t / (2 * (onset_time p)\<^sup>2))))
     else if t < 24 then Inr (V0 p * exp (- c p * t))
     else if onedaydilution p \<noteq> 0 then Inr (0.25 * V0 p * exp (- c p * t))
     else Inr (V0 p * exp (- c p * t)))"

text \<open>
  The progression rate of a phase that a drug halts (lines 129 to 140): \<open>n / tau\<close> before the
  action time, and \<open>n / tau\<close> times a Gaussian factor from the action time on.
\<close>

definition drug_rate :: "par \<Rightarrow> nat \<Rightarrow> real \<Rightarrow> real \<Rightarrow> real \<Rightarrow> error + real" where
  "drug_rate p n tau action_time t =
    (if t < action_time then
       (if tau = 0 then Inl ZeroDivisionError else Inr (real n / tau))
     else
       (if tau = 0 \<or> 2 * (onset_time p)\<^sup>2 = 0 then Inl ZeroDivisionError
        else Inr (real n / tau * exp (- (t - action_time)\<^sup>2 / (2 * (onset_time p)\<^sup>2)))))"

text \<open>
  The array \<open>live\<close> (lines 163 and 164): row 0 is zero, row \<open>i + 1\<close> is segment \<open>i\<close> of the
  clamped state, \<open>ncolL\<close> entries wide. \<open>row_sum live i a b\<close> is \<open>np.sum(live[i, a:b])\<close> and
  \<open>block_sum live nT a b\<close> is \<open>np.sum(live[1:, a:b])\<close>.
\<close>

definition live_at :: "real list \<Rightarrow> nat \<Rightarrow> nat \<Rightarrow> nat \<Rightarrow> real" where
  "live_at Xc ncolL i j = (if i = 0 then 0 else Xc ! ((i - 1) * ncolL + j))"

definition row_sum :: "(nat \<Rightarrow> nat \<Rightarrow> real) \<Rightarrow> nat \<Rightarrow> nat \<Rightarrow> nat \<Rightarrow> real" where
  "row_sum live i a b = sum_list (map (live i) [a..<b])"

definition block_sum :: "(nat \<Rightarrow> nat \<Rightarrow> real) \<Rightarrow> nat \<Rightarrow> nat \<Rightarrow> nat \<Rightarrow> real" where
  "block_sum live n a b = sum_list (map (\<lambda>i. row_sum live i a b) [1..<n + 1])"

text \<open>
  One pass of the loop \<open>for i in range(nT)\<close> of \<open>_ode_expP\<close> (lines 174 to 219): the
  assignments to \<open>dXdt\<close> in the order of the source. \<open>np.arange(n-1)+b\<close> is
  \<open>map (\<lambda>k. k + b) [0..<n - 1]\<close>, empty for \<open>n \<le> 1\<close>.
\<close>

definition row_expP ::
  "par \<Rightarrow> real \<Rightarrow> real \<Rightarrow> real \<Rightarrow> real \<Rightarrow> real \<Rightarrow> (nat \<Rightarrow> nat \<Rightarrow> real) \<Rightarrow>
   real list \<Rightarrow> nat \<Rightarrow> real list" where
  "row_expP p deltaT deltaEE deltaER deltaEI Virus live dXdt i =
    (let ncolL = nEE p + nER p + nEI p + 2;
         d0 = dXdt[ncolL * i + 0 :=
                - beta p * live (i + 1) 0 * Virus / N p
                + s p * live (i + 1) 0 + deltaT * (live i 0 - live (i + 1) 0)
                + fEE p * row_sum live (i + 1) 1 (nEE p + 1)
                + fER p * row_sum live (i + 1) (nEE p + 1) (nEE p + nER p + 1)
                + fEI p * row_sum live (i + 1) (nEE p + nER p + 1) (nEE p + nER p + nEI p + 1)];
         d1 = d0[ncolL * i + 1 :=
                beta p * live (i + 1) 0 * Virus / N p
                + deltaT * (live i 1 - live (i + 1) 1) - deltaEE * live (i + 1) 1
                + (s p - fEE p) * live (i + 1) 1
                - dEE p * live (i + 1) 1];
         d2 = foldl (\<lambda>d j. d[ncolL * i + j :=
                deltaT * (live i j - live (i + 1) j)
                + deltaEE * (live (i + 1) (j - 1) - live (i + 1) j)
                + (s p - fEE p) * live (i + 1) j
                - dEE p * live (i + 1) j])
              d1 (map (\<lambda>k. k + 2) [0..<nEE p - 1]);
         d3 = d2[ncolL * i + (nEE p + 1) :=
                deltaEE * live (i + 1) (nEE p + 1 - 1)
                + deltaT * (live i (nEE p + 1) - live (i + 1) (nEE p + 1))
                - deltaER * live (i + 1) (nEE p + 1)
                + (s p - fER p) * live (i + 1) (nEE p + 1)
                - dER p * live (i + 1) (nEE p + 1)];
         d4 = foldl (\<lambda>d j. d[ncolL * i + j :=
                deltaT * (live i j - live (i + 1) j)
                + deltaER * (live (i + 1) (j - 1) - live (i + 1) j)
                + (s p - fER p) * live (i + 1) j
                - dER p * live (i + 1) j])
              d3 (map (\<lambda>k. k + (nEE p + 2)) [0..<nER p - 1]);
         d5 = d4[ncolL * i + (nEE p + nER p + 1) :=
                deltaER * live (i + 1) (nEE p + nER p + 1 - 1)
                + deltaT * (live i (nEE p + nER p + 1) - live (i + 1) (nEE p + nER p + 1))
                - deltaEI * live (i + 1) (nEE p + nER p + 1)
                + (s p - fEI p) * live (i + 1) (nEE p + nER p + 1)
                - dEI p * live (i + 1) (nEE p + nER p + 1)];
         d6 = foldl (\<lambda>d j. d[ncolL * i + j :=
                deltaT * (live i j - live (i + 1) j)
                + deltaEI * (live (i + 1) (j - 1) - live (i + 1) j)
                + (s p - fEI p) * live (i + 1) j
                - dEI p * live (i + 1) j])
              d5 (map (\<lambda>k. k + (nEE p + nER p + 2)) [0..<nEI p - 1]);
         d7 = d6[ncolL * i + (nEE p + nER p + nEI p + 1) :=
                deltaEI * live (i + 1) (nEE p + nER p + nEI p + 1 - 1)
                + deltaT * (live i (nEE p + nER p + nEI p + 1)
                            - live (i + 1) (nEE p + nER p + nEI p + 1))
                + s p * live (i + 1) (nEE p + nER p + nEI p + 1)
                - dP p * live (i + 1) (nEE p + nER p + nEI p + 1)]
     in d7)"

text \<open>
  \<open>_ode_expP\<close> from line 157 on, the rates and the virus concentration being computed
  and the state clamped: the array \<open>live\<close>, the loop over the segments, and the two
  assignments \<open>dXdt[-2]\<close> and \<open>dXdt[-1]\<close> of the dead cells.
\<close>

definition body_expP ::
  "par \<Rightarrow> real \<Rightarrow> real \<Rightarrow> real \<Rightarrow> real \<Rightarrow> real \<Rightarrow> real list \<Rightarrow> real list" where
  "body_expP p deltaT deltaEE deltaER deltaEI Virus Xc =
    (let ncolL = nEE p + nER p + nEI p + 2;
         live = live_at Xc ncolL;
         dXdt0 = replicate (nT p * ncolL + 2) 0;
         dXdt1 = foldl (row_expP p deltaT deltaEE deltaER deltaEI Virus live) dXdt0 [0..<nT p];
         dXdt2 = dXdt1[length dXdt1 - 2 :=
                   dEE p * block_sum live (nT p) 1 (nEE p + 1)
                   + dER p * block_sum live (nT p) (nEE p + 1) (nEE p + nER p + 1)
                   + dEI p * block_sum live (nT p) (nEE p + nER p + 1) (nEE p + nER p + nEI p + 1)
                   + deltaT * row_sum live (nT p) 0 (nEE p + nER p + nEI p + 1)
                   - dD p * Xc ! (length Xc - 2)];
         dXdt3 = dXdt2[length dXdt2 - 1 :=
                   dP p * block_sum live (nT p) (nEE p + nER p + nEI p + 1) (nEE p + nER p + nEI p + 2)
                   + deltaT * live (nT p) (nEE p + nER p + nEI p + 1)
                   - dD p * Xc ! (length Xc - 1)]
     in dXdt3)"

text \<open>
  \<open>_ode_expP\<close> (lines 122 to 230). What the source does outside the ordinary case:
  \<^item> \<open>_nT / tauT\<close> and the other rates are divisions of Python numbers and raise
    \<open>ZeroDivisionError\<close> at a zero \<open>tau\<close>;
  \<^item> \<open>np.reshape\<close> raises \<open>ValueError\<close> unless \<open>X[:-2]\<close> has \<open>nT * ncolL\<close> entries;
  \<^item> a division by \<open>N = 0\<close> is a numpy division: no exception, and the entry of every
    uninfected column is \<open>nan\<close> or infinite (\<open>NonFiniteResult\<close>: what is returned is no
    vector of reals);
  \<^item> \<open>X[-2]\<close> raises \<open>IndexError\<close> on an array shorter than two.
  With natural stage counts every other index is in range.
\<close>

definition ode_expP :: "par \<Rightarrow> real list \<Rightarrow> real \<Rightarrow> error + real list" where
  "ode_expP p X t =
    (if tauT p = 0 \<or> tauEI p = 0 then Inl ZeroDivisionError else
     let deltaT = real (nT p) / tauT p;
         deltaEI = real (nEI p) / tauEI p in
     case drug_rate p (nEE p) (tauEE p) (EFAV_time p) t of Inl e \<Rightarrow> Inl e | Inr deltaEE \<Rightarrow>
     (case drug_rate p (nER p) (tauER p) (RALT_time p) t of Inl e \<Rightarrow> Inl e | Inr deltaER \<Rightarrow>
     (case Virus_at p t of Inl e \<Rightarrow> Inl e | Inr Virus \<Rightarrow>
     if length X - 2 \<noteq> nT p * (nEE p + nER p + nEI p + 2) then Inl ValueError
     else if N p = 0 \<and> 0 < nT p then Inl NonFiniteResult
     else if length X < 2 then Inl IndexError
     else Inr (body_expP p deltaT deltaEE deltaER deltaEI Virus (clamp_neg X)))))"

text \<open>
  One pass of the loop of \<open>_ode_gammaP\<close> (lines 276 to 327): as in \<open>_ode_expP\<close>, with the
  progression \<open>deltaP\<close> out of the first productive column and the chain of the other
  \<open>nP - 1\<close> productive columns.
\<close>

definition row_gammaP ::
  "par \<Rightarrow> real \<Rightarrow> real \<Rightarrow> real \<Rightarrow> real \<Rightarrow> real \<Rightarrow> real \<Rightarrow> (nat \<Rightarrow> nat \<Rightarrow> real) \<Rightarrow>
   real list \<Rightarrow> nat \<Rightarrow> real list" where
  "row_gammaP p deltaT deltaEE deltaER deltaEI deltaP Virus live dXdt i =
    (let ncolL = 1 + nEE p + nER p + nEI p + nP p;
         d0 = dXdt[ncolL * i + 0 :=
                - beta p * live (i + 1) 0 * Virus / N p
                + s p * live (i + 1) 0 + deltaT * (live i 0 - live (i + 1) 0)
                + fEE p * row_sum live (i + 1) 1 (nEE p + 1)
                + fER p * row_sum live (i + 1) (nEE p + 1) (nEE p + nER p + 1)
                + fEI p * row_sum live (i + 1) (nEE p + nER p + 1) (nEE p + nER p + nEI p + 1)];
         d1 = d0[ncolL * i + 1 :=
                beta p * live (i + 1) 0 * Virus / N p
                + deltaT * (live i 1 - live (i + 1) 1) - deltaEE * live (i + 1) 1
                + (s p - fEE p) * live (i + 1) 1
                - dEE p * live (i + 1) 1];
         d2 = foldl (\<lambda>d j. d[ncolL * i + j :=
                deltaT * (live i j - live (i + 1) j)
                + deltaEE * (live (i + 1) (j - 1) - live (i + 1) j)
                + (s p - fEE p) * live (i + 1) j
                - dEE p * live (i + 1) j])
              d1 (map (\<lambda>k. k + 2) [0..<nEE p - 1]);
         d3 = d2[ncolL * i + (nEE p + 1) :=
                deltaEE * live (i + 1) (nEE p + 1 - 1)
                + deltaT * (live i (nEE p + 1) - live (i + 1) (nEE p + 1))
                - deltaER * live (i + 1) (nEE p + 1)
                + (s p - fER p) * live (i + 1) (nEE p + 1)
                - dER p * live (i + 1) (nEE p + 1)];
         d4 = foldl (\<lambda>d j. d[ncolL * i + j :=
                deltaT * (live i j - live (i + 1) j)
                + deltaER * (live (i + 1) (j - 1) - live (i + 1) j)
                + (s p - fER p) * live (i + 1) j
                - dER p * live (i + 1) j])
              d3 (map (\<lambda>k. k + (nEE p + 2)) [0..<nER p - 1]);
         d5 = d4[ncolL * i + (nEE p + nER p + 1) :=
                deltaER * live (i + 1) (nEE p + nER p + 1 - 1)
                + deltaT * (live i (nEE p + nER p + 1) - live (i + 1) (nEE p + nER p + 1))
                - deltaEI * live (i + 1) (nEE p + nER p + 1)
                + (s p - fEI p) * live (i + 1) (nEE p + nER p + 1)
                - dEI p * live (i + 1) (nEE p + nER p + 1)];
         d6 = foldl (\<lambda>d j. d[ncolL * i + j :=
                deltaT * (live i j - live (i + 1) j)
                + deltaEI * (live (i + 1) (j - 1) - live (i + 1) j)
                + (s p - fEI p) * live (i + 1) j
                - dEI p * live (i + 1) j])
              d5 (map (\<lambda>k. k + (nEE p + nER p + 2)) [0..<nEI p - 1]);
         d7 = d6[ncolL * i + (nEE p + nER p + nEI p + 1) :=
                deltaEI * live (i + 1) (nEE p + nER p + nEI p + 1 - 1)
                + deltaT * (live i (nEE p + nER p + nEI p + 1)
                            - live (i + 1) (nEE p + nER p + nEI p + 1))
                - deltaP * live (i + 1) (nEE p + nER p + nEI p + 1)
                + s p * live (i + 1) (nEE p + nER p + nEI p + 1)
                - dP p * live (i + 1) (nEE p + nER p + nEI p + 1)];
         d8 = foldl (\<lambda>d j. d[ncolL * i + j :=
                deltaT * (live i j - live (i + 1) j)
                + deltaP * (live (i + 1) (j - 1) - live (i + 1) j)
                + s p * live (i + 1) j
                - dP p * live (i + 1) j])
              d7 (map (\<lambda>k. k + (nEE p + nER p + nEI p + 2)) [0..<nP p - 1])
     in d8)"

text \<open>
  \<open>_ode_gammaP\<close> from line 259 on. The dead infected cells collect the deaths of all
  \<open>nP\<close> productive columns, their outflow from the last segment, and the progression out
  of the last productive column.
\<close>

definition body_gammaP ::
  "par \<Rightarrow> real \<Rightarrow> real \<Rightarrow> real \<Rightarrow> real \<Rightarrow> real \<Rightarrow> real \<Rightarrow> real list \<Rightarrow> real list" where
  "body_gammaP p deltaT deltaEE deltaER deltaEI deltaP Virus Xc =
    (let ncolL = 1 + nEE p + nER p + nEI p + nP p;
         live = live_at Xc ncolL;
         dXdt0 = replicate (nT p * ncolL + 2) 0;
         dXdt1 = foldl (row_gammaP p deltaT deltaEE deltaER deltaEI deltaP Virus live)
                   dXdt0 [0..<nT p];
         dXdt2 = dXdt1[length dXdt1 - 2 :=
                   dEE p * block_sum live (nT p) 1 (nEE p + 1)
                   + dER p * block_sum live (nT p) (nEE p + 1) (nEE p + nER p + 1)
                   + dEI p * block_sum live (nT p) (nEE p + nER p + 1) (nEE p + nER p + nEI p + 1)
                   + deltaT * row_sum live (nT p) 0 (nEE p + nER p + nEI p + 1)
                   - dD p * Xc ! (length Xc - 2)];
         dXdt3 = dXdt2[length dXdt2 - 1 :=
                   dP p * block_sum live (nT p) (nEE p + nER p + nEI p + 1)
                                                (nEE p + nER p + nEI p + nP p + 1)
                   + deltaT * row_sum live (nT p) (nEE p + nER p + nEI p + 1)
                                                  (nEE p + nER p + nEI p + nP p + 1)
                   + deltaP * block_sum live (nT p) (nEE p + nER p + nEI p + nP p)
                                                    (nEE p + nER p + nEI p + nP p + 1)
                   - dD p * Xc ! (length Xc - 1)]
     in dXdt3)"

text \<open>
  \<open>_ode_gammaP\<close> (lines 232 to 339). The five rates are the constants \<open>n / tau\<close>: the
  function reads neither \<open>EFAV_time\<close> nor \<open>RALT_time\<close>. With \<open>nP = 0\<close> and at least one
  segment, \<open>live[i+1, j]\<close> at line 318 is read one column past the end and numpy raises
  \<open>IndexError\<close>.
\<close>

definition ode_gammaP :: "par \<Rightarrow> real list \<Rightarrow> real \<Rightarrow> error + real list" where
  "ode_gammaP p X t =
    (if tauT p = 0 \<or> tauEE p = 0 \<or> tauER p = 0 \<or> tauEI p = 0 \<or> tauP p = 0
     then Inl ZeroDivisionError else
     let deltaT = real (nT p) / tauT p;
         deltaEE = real (nEE p) / tauEE p;
         deltaER = real (nER p) / tauER p;
         deltaEI = real (nEI p) / tauEI p;
         deltaP = real (nP p) / tauP p in
     case Virus_at p t of Inl e \<Rightarrow> Inl e | Inr Virus \<Rightarrow>
     if length X - 2 \<noteq> nT p * (1 + nEE p + nER p + nEI p + nP p) then Inl ValueError
     else if nP p = 0 \<and> 0 < nT p then Inl IndexError
     else if N p = 0 \<and> 0 < nT p then Inl NonFiniteResult
     else if length X < 2 then Inl IndexError
     else Inr (body_gammaP p deltaT deltaEE deltaER deltaEI deltaP Virus (clamp_neg X)))"

text \<open>
  \<open>evolve\<close> (lines 369 to 373) hands \<open>_ode_gammaP\<close> to the integrator when \<open>deathtype\<close> is
  \<open>'gamma'\<close>, and \<open>_ode_expP\<close> otherwise.
\<close>

definition evolve_rhs :: "par \<Rightarrow> real list \<Rightarrow> real \<Rightarrow> error + real list" where
  "evolve_rhs p = (if deathtype p = Str ''gamma'' then ode_gammaP p else ode_expP p)"

text \<open>
  The entry that the loop of \<open>_ode_gammaP\<close> leaves at column \<open>j\<close> of segment \<open>i\<close> when
  every phase has at least one stage, as a function of the rates. It serves the proofs.
\<close>

definition col_gammaP ::
  "par \<Rightarrow> real \<Rightarrow> real \<Rightarrow> real \<Rightarrow> real \<Rightarrow> real \<Rightarrow> real \<Rightarrow> (nat \<Rightarrow> nat \<Rightarrow> real) \<Rightarrow>
   nat \<Rightarrow> nat \<Rightarrow> real" where
  "col_gammaP p deltaT deltaEE deltaER deltaEI deltaP Virus live i j =
    (if j = 0 then
       - beta p * live (i + 1) 0 * Virus / N p
       + s p * live (i + 1) 0 + deltaT * (live i 0 - live (i + 1) 0)
       + fEE p * row_sum live (i + 1) 1 (nEE p + 1)
       + fER p * row_sum live (i + 1) (nEE p + 1) (nEE p + nER p + 1)
       + fEI p * row_sum live (i + 1) (nEE p + nER p + 1) (nEE p + nER p + nEI p + 1)
     else if j = 1 then
       beta p * live (i + 1) 0 * Virus / N p
       + deltaT * (live i 1 - live (i + 1) 1) - deltaEE * live (i + 1) 1
       + (s p - fEE p) * live (i + 1) 1
       - dEE p * live (i + 1) 1
     else if j < nEE p + 1 then
       deltaT * (live i j - live (i + 1) j)
       + deltaEE * (live (i + 1) (j - 1) - live (i + 1) j)
       + (s p - fEE p) * live (i + 1) j
       - dEE p * live (i + 1) j
     else if j = nEE p + 1 then
       deltaEE * live (i + 1) (j - 1)
       + deltaT * (live i j - live (i + 1) j)
       - deltaER * live (i + 1) j
       + (s p - fER p) * live (i + 1) j
       - dER p * live (i + 1) j
     else if j < nEE p + nER p + 1 then
       deltaT * (live i j - live (i + 1) j)
       + deltaER * (live (i + 1) (j - 1) - live (i + 1) j)
       + (s p - fER p) * live (i + 1) j
       - dER p * live (i + 1) j
     else if j = nEE p + nER p + 1 then
       deltaER * live (i + 1) (j - 1)
       + deltaT * (live i j - live (i + 1) j)
       - deltaEI * live (i + 1) j
       + (s p - fEI p) * live (i + 1) j
       - dEI p * live (i + 1) j
     else if j < nEE p + nER p + nEI p + 1 then
       deltaT * (live i j - live (i + 1) j)
       + deltaEI * (live (i + 1) (j - 1) - live (i + 1) j)
       + (s p - fEI p) * live (i + 1) j
       - dEI p * live (i + 1) j
     else if j = nEE p + nER p + nEI p + 1 then
       deltaEI * live (i + 1) (j - 1)
       + deltaT * (live i j - live (i + 1) j)
       - deltaP * live (i + 1) j
       + s p * live (i + 1) j
       - dP p * live (i + 1) j
     else
       deltaT * (live i j - live (i + 1) j)
       + deltaP * (live (i + 1) (j - 1) - live (i + 1) j)
       + s p * live (i + 1) j
       - dP p * live (i + 1) j)"

section \<open>The summary\<close>

text \<open>
  An entry of the summary array \<open>XX\<close>. The infected fraction is the quotient of two numpy
  floats: at a zero divisor numpy warns and yields \<open>nan\<close> (for \<open>0/0\<close>) or an infinity,
  and raises nothing.
\<close>

datatype npfloat = Finite real | NaN | Infinite

definition np_divide :: "real \<Rightarrow> real \<Rightarrow> npfloat" where
  "np_divide a b = (if b = 0 then (if a = 0 then NaN else Infinite) else Finite (a / b))"

definition clip0 :: "real \<Rightarrow> real" where
  "clip0 x = max x 0"

text \<open>\<open>np.sum(X[i, a:b])\<close>; a slice stops at the end of the row.\<close>

definition slice_sum :: "real list \<Rightarrow> nat \<Rightarrow> nat \<Rightarrow> real" where
  "slice_sum Xi a b = sum_list (take (b - a) (drop a Xi))"

text \<open>
  The body of the loop of \<open>getsummarydata\<close> (lines 389 to 400) on the state \<open>X[i,:]\<close>:
  total, dead, infected fraction, dead fraction of the infected. \<open>X[i,-1]\<close> raises
  \<open>IndexError\<close> on an empty row. Only the second quotient is guarded.
\<close>

definition summary_row :: "par \<Rightarrow> real list \<Rightarrow> error + real \<times> real \<times> npfloat \<times> npfloat" where
  "summary_row p Xi =
    (let nP' = (if deathtype p = Str ''gamma'' then nP p else 1);
         ncolL = 1 + nEE p + nER p + nEI p + nP';
         ncolE = nEE p + nER p + nEI p;
         total = clip0 (sum_list Xi);
         dead = clip0 (sum_list (drop (length Xi - 2) Xi))
     in if Xi = [] then Inl IndexError
        else
          let deadinf = clip0 (last Xi);
              liveinf = foldl (\<lambda>acc j. acc
                          + slice_sum Xi (j * ncolL + (1 + ncolE)) (j * ncolL + (1 + ncolE + nP')))
                        0 [0..<nT p]
          in Inr (total, dead, np_divide (deadinf + liveinf) total,
                  if liveinf + deadinf > 0 then Finite (deadinf / (liveinf + deadinf))
                  else Finite 0))"

text \<open>
  \<open>getsummarydata(times, X)\<close>: one row for each time; \<open>X[i,:]\<close> raises \<open>IndexError\<close> when
  the trajectory has fewer rows than there are times.
\<close>

fun summary_loop ::
  "par \<Rightarrow> nat list \<Rightarrow> real list list \<Rightarrow> error + (real \<times> real \<times> npfloat \<times> npfloat) list" where
  "summary_loop p [] X = Inr []"
| "summary_loop p (i # js) X =
    (if length X \<le> i then Inl IndexError
     else case summary_row p (X ! i) of
            Inl e \<Rightarrow> Inl e
          | Inr r \<Rightarrow> (case summary_loop p js X of Inl e \<Rightarrow> Inl e | Inr rs \<Rightarrow> Inr (r # rs)))"

definition getsummarydata ::
  "par \<Rightarrow> real list \<Rightarrow> real list list \<Rightarrow> error + (real \<times> real \<times> npfloat \<times> npfloat) list" where
  "getsummarydata p ts X = summary_loop p [0..<length ts] X"

section \<open>Properties of the stage-count derivation\<close>














text \<open>
  Claim C7. When \<open>deathtype\<close> is \<open>'exp'\<close>, \<open>checkpars\<close> sets the stage count of the productive
  phase to exactly 1 and \<open>sigmaP\<close> to exactly \<open>tauP\<close>, whatever \<open>sigmaP\<close> was (zero and negative
  values too), and returns normally. The four derivations before it have to get there:
  each divides by its own \<open>sigma\<close>.
\<close>

theorem checkpars_exp:
  assumes "deathtype p = Str ''exp''"
    and "sigmaT p \<noteq> 0" "sigmaEE p \<noteq> 0" "sigmaER p \<noteq> 0" "sigmaEI p \<noteq> 0"
  shows "nP (fst (checkpars p)) = 1 \<and> sigmaP (fst (checkpars p)) = tauP p \<and>
         snd (checkpars p) = None"
  using assms by (simp add: checkpars_def Let_def)

theorem checkpars_exp_witness:
  "deathtype (Par_init\<lparr>sigmaP := 0\<rparr>) = Str ''exp'' \<and>
   sigmaT (Par_init\<lparr>sigmaP := 0\<rparr>) \<noteq> 0 \<and> sigmaEE (Par_init\<lparr>sigmaP := 0\<rparr>) \<noteq> 0 \<and>
   sigmaER (Par_init\<lparr>sigmaP := 0\<rparr>) \<noteq> 0 \<and> sigmaEI (Par_init\<lparr>sigmaP := 0\<rparr>) \<noteq> 0 \<and>
   nP (fst (checkpars (Par_init\<lparr>sigmaP := 0\<rparr>))) = 1 \<and>
   sigmaP (fst (checkpars (Par_init\<lparr>sigmaP := 0\<rparr>))) = 6 \<and>
   snd (checkpars (Par_init\<lparr>sigmaP := 0\<rparr>)) = None"
  using checkpars_exp [of "Par_init\<lparr>sigmaP := 0\<rparr>"]
  by (simp add: Par_init_def)

lemma checkpars_error_cases:
  "snd (checkpars p) =
    (if sigmaT p = 0 \<or> sigmaEE p = 0 \<or> sigmaER p = 0 \<or> sigmaEI p = 0
     then Some ZeroDivisionError
     else if deathtype p = Str ''exp'' then None
     else if deathtype p = Str ''gamma'' then
       (if sigmaP p = 0 then Some ZeroDivisionError else None)
     else Some SystemExit)"
  by (simp add: checkpars_def Let_def)

lemma main_until_evolve_error:
  "snd (checkpars p) = Some e \<Longrightarrow> main_until_evolve p = Inl e"
  by (cases "checkpars p") (simp add: main_until_evolve_def)

text \<open>
  Claim C8. For every \<open>deathtype\<close> other than \<open>'exp'\<close> and \<open>'gamma'\<close> (any other string,
  any number), \<open>checkpars\<close> does not return: it ends in \<open>sys.exit()\<close>, or in the
  \<open>ZeroDivisionError\<close> of an earlier derivation whose \<open>sigma\<close> is zero. The script then stops
  at the same exception before it has built the initial state and before it has called the
  integrator.
\<close>

theorem checkpars_invalid_deathtype:
  assumes "deathtype p \<noteq> Str ''exp''" "deathtype p \<noteq> Str ''gamma''"
  shows "snd (checkpars p) =
           Some (if sigmaT p = 0 \<or> sigmaEE p = 0 \<or> sigmaER p = 0 \<or> sigmaEI p = 0
                 then ZeroDivisionError else SystemExit) \<and>
         main_until_evolve p =
           Inl (if sigmaT p = 0 \<or> sigmaEE p = 0 \<or> sigmaER p = 0 \<or> sigmaEI p = 0
                then ZeroDivisionError else SystemExit)"
proof -
  let ?e = "if sigmaT p = 0 \<or> sigmaEE p = 0 \<or> sigmaER p = 0 \<or> sigmaEI p = 0
            then ZeroDivisionError else SystemExit"
  have e: "snd (checkpars p) = Some ?e"
    using assms by (simp add: checkpars_error_cases)
  from main_until_evolve_error [OF e] e show ?thesis by simp
qed

theorem checkpars_invalid_deathtype_witness:
  "deathtype (Par_init\<lparr>deathtype := Str ''weibull''\<rparr>) \<noteq> Str ''exp'' \<and>
   deathtype (Par_init\<lparr>deathtype := Str ''weibull''\<rparr>) \<noteq> Str ''gamma'' \<and>
   snd (checkpars (Par_init\<lparr>deathtype := Str ''weibull''\<rparr>)) = Some SystemExit \<and>
   main_until_evolve (Par_init\<lparr>deathtype := Str ''weibull''\<rparr>) = Inl SystemExit"
  using checkpars_invalid_deathtype [of "Par_init\<lparr>deathtype := Str ''weibull''\<rparr>"]
  by (simp add: Par_init_def)

section \<open>Properties of \<open>setpars\<close>\<close>

lemma checkpars_deathtype: "deathtype (fst (checkpars p)) = deathtype p"
  by (simp add: checkpars_def Let_def)

lemma setattr_Par_deathtype:
  "deathtype (setattr_Par kw x p) = (if kw = ''deathtype'' then Num x else deathtype p)"
  by (simp add: setattr_Par_def)

lemma setpars_loop_deathtype_cases:
  "deathtype (fst (setpars_loop pf kwdargs p)) = deathtype p \<or>
   (\<exists>x. deathtype (fst (setpars_loop pf kwdargs p)) = Num x)"
proof (induction kwdargs arbitrary: p)
  case Nil
  then show ?case by simp
next
  case (Cons a kwdargs)
  obtain kw v where a: "a = (kw, v)" by (cases a)
  show ?case
  proof (cases "py_float pf v")
    case (Inl e)
    then show ?thesis by (simp add: a)
  next
    case (Inr x)
    from Cons.IH [of "setattr_Par kw x p"] Inr show ?thesis
      by (auto simp: a setattr_Par_deathtype)
  qed
qed

lemma setpars_loop_keeps_Num:
  "deathtype p = Num y \<Longrightarrow> \<exists>x. deathtype (fst (setpars_loop pf kwdargs p)) = Num x"
  using setpars_loop_deathtype_cases [of pf kwdargs p] by auto

lemma setpars_loop_sets_Num:
  "(''deathtype'', v) \<in> set kwdargs \<Longrightarrow> snd (setpars_loop pf kwdargs p) = None \<Longrightarrow>
   \<exists>x. deathtype (fst (setpars_loop pf kwdargs p)) = Num x"
proof (induction kwdargs arbitrary: p)
  case Nil
  then show ?case by simp
next
  case (Cons a kwdargs)
  obtain kw w where a: "a = (kw, w)" by (cases a)
  show ?case
  proof (cases "py_float pf w")
    case (Inl e)
    with Cons.prems show ?thesis by (simp add: a)
  next
    case (Inr x)
    show ?thesis
    proof (cases "(''deathtype'', v) \<in> set kwdargs")
      case True
      with Cons.IH [of "setattr_Par kw x p"] Cons.prems Inr show ?thesis
        by (simp add: a)
    next
      case False
      with Cons.prems have "kw = ''deathtype''" by (auto simp: a)
      then have "deathtype (setattr_Par kw x p) = Num x"
        by (simp add: setattr_Par_deathtype)
      from setpars_loop_keeps_Num [OF this] Inr show ?thesis
        by (simp add: a)
    qed
  qed
qed

lemma setpars_deathtype:
  "deathtype (fst (setpars pf kwdargs p)) = deathtype (fst (setpars_loop pf kwdargs p))"
  by (cases "setpars_loop pf kwdargs p"; cases "snd (setpars_loop pf kwdargs p)")
     (auto simp: setpars_def checkpars_deathtype)

lemma setpars_error:
  "snd (setpars pf kwdargs p) =
    (case snd (setpars_loop pf kwdargs p) of
       Some e \<Rightarrow> Some e
     | None \<Rightarrow> snd (checkpars (fst (setpars_loop pf kwdargs p))))"
  by (cases "setpars_loop pf kwdargs p"; cases "snd (setpars_loop pf kwdargs p)")
     (auto simp: setpars_def)

text \<open>
  Claim C10. \<open>setpars\<close> passes every supplied value through \<open>float\<close> before it assigns it,
  so \<open>deathtype\<close> can only become a number there. Whatever the keyword arguments and the
  string parser are:
  \<^item> if \<open>deathtype\<close> was not \<open>'gamma'\<close> before the call it is not \<open>'gamma'\<close> after it, so the
    gamma variant is selected only by an assignment made outside \<open>setpars\<close>;
  \<^item> a call that supplies \<open>deathtype\<close> always ends in an exception;
  \<^item> \<open>setpars(deathtype=str)\<close> with a string that \<open>float\<close> does not parse, \<open>'gamma'\<close> being
    one, raises \<open>ValueError\<close> and leaves the parameters as they were;
  \<^item> \<open>setpars(deathtype=x)\<close> with a number stores it, and the validation that follows ends
    in \<open>sys.exit()\<close> (the four earlier derivations having a non-zero \<open>sigma\<close>).
\<close>

theorem setpars_never_selects_gamma:
  "(deathtype p \<noteq> Str ''gamma'' \<longrightarrow> deathtype (fst (setpars pf kwdargs p)) \<noteq> Str ''gamma'') \<and>
   ((''deathtype'', v) \<in> set kwdargs \<longrightarrow> snd (setpars pf kwdargs p) \<noteq> None) \<and>
   (pf str = None \<longrightarrow>
      setpars pf [(''deathtype'', Str str)] p = (p, Some ValueError)) \<and>
   (sigmaT p \<noteq> 0 \<and> sigmaEE p \<noteq> 0 \<and> sigmaER p \<noteq> 0 \<and> sigmaEI p \<noteq> 0 \<longrightarrow>
      setpars pf [(''deathtype'', Num x)] p =
        (fst (checkpars (p\<lparr>deathtype := Num x\<rparr>)), Some SystemExit))"
proof (intro conjI impI)
  assume "deathtype p \<noteq> Str ''gamma''"
  with setpars_loop_deathtype_cases [of pf kwdargs p]
  show "deathtype (fst (setpars pf kwdargs p)) \<noteq> Str ''gamma''"
    by (auto simp: setpars_deathtype)
next
  assume mem: "(''deathtype'', v) \<in> set kwdargs"
  show "snd (setpars pf kwdargs p) \<noteq> None"
  proof (cases "snd (setpars_loop pf kwdargs p)")
    case None
    from setpars_loop_sets_Num [OF mem None] obtain y
      where "deathtype (fst (setpars_loop pf kwdargs p)) = Num y" ..
    then show ?thesis
      by (simp add: setpars_error None checkpars_error_cases)
  next
    case (Some e)
    then show ?thesis by (simp add: setpars_error)
  qed
next
  assume "pf str = None"
  then show "setpars pf [(''deathtype'', Str str)] p = (p, Some ValueError)"
    by (simp add: setpars_def py_float_def)
next
  assume nz: "sigmaT p \<noteq> 0 \<and> sigmaEE p \<noteq> 0 \<and> sigmaER p \<noteq> 0 \<and> sigmaEI p \<noteq> 0"
  have "snd (checkpars (p\<lparr>deathtype := Num x\<rparr>)) = Some SystemExit"
    using nz by (simp add: checkpars_error_cases)
  then have "checkpars (p\<lparr>deathtype := Num x\<rparr>) =
      (fst (checkpars (p\<lparr>deathtype := Num x\<rparr>)), Some SystemExit)"
    by (metis prod.collapse)
  then show "setpars pf [(''deathtype'', Num x)] p =
      (fst (checkpars (p\<lparr>deathtype := Num x\<rparr>)), Some SystemExit)"
    by (simp add: setpars_def py_float_def setattr_Par_def)
qed

theorem setpars_never_selects_gamma_witness:
  "deathtype Par_init \<noteq> Str ''gamma'' \<and>
   (''deathtype'', Str ''gamma'') \<in> set [(''tauP'', Num 3), (''deathtype'', Str ''gamma'')] \<and>
   (\<lambda>str. None :: real option) ''gamma'' = None \<and>
   sigmaT Par_init \<noteq> 0 \<and> sigmaEE Par_init \<noteq> 0 \<and> sigmaER Par_init \<noteq> 0 \<and> sigmaEI Par_init \<noteq> 0 \<and>
   deathtype (fst (setpars (\<lambda>str. None)
      [(''tauP'', Num 3), (''deathtype'', Str ''gamma'')] Par_init)) \<noteq> Str ''gamma'' \<and>
   snd (setpars (\<lambda>str. None)
      [(''tauP'', Num 3), (''deathtype'', Str ''gamma'')] Par_init) \<noteq> None \<and>
   setpars (\<lambda>str. None) [(''deathtype'', Str ''gamma'')] Par_init = (Par_init, Some ValueError) \<and>
   snd (setpars (\<lambda>str. None) [(''deathtype'', Num 1)] Par_init) = Some SystemExit"
  using setpars_never_selects_gamma
    [of Par_init "\<lambda>str. None" "[(''tauP'', Num 3), (''deathtype'', Str ''gamma'')]"
      "Str ''gamma''" "''gamma''" 1]
  by (simp add: Par_init_def)

section \<open>The loop of the right-hand side, entry by entry\<close>

lemma foldl_update_length:
  "length (foldl (\<lambda>d j. d[g j := f j]) d js) = length d"
  by (induction js arbitrary: d) simp_all

lemma foldl_update_nth:
  "k < length d \<Longrightarrow>
   foldl (\<lambda>d j. d[b + j := f j]) d js ! k =
     (if b \<le> k \<and> k - b \<in> set js then f (k - b) else d ! k)"
proof (induction js arbitrary: d)
  case Nil
  then show ?case by simp
next
  case (Cons j js)
  have len: "k < length (d[b + j := f j])" using Cons.prems by simp
  show ?case
    using Cons.IH [OF len] Cons.prems
    by (auto simp: nth_list_update)
qed

lemma set_shifted_upt: "set (map (\<lambda>k. k + a) [0..<m]) = {a..<a + m}"
proof -
  have "(\<lambda>k. k + a) ` {0..<m} = {a..<a + m}"
  proof (intro set_eqI iffI)
    fix x assume "x \<in> (\<lambda>k. k + a) ` {0..<m}"
    then show "x \<in> {a..<a + m}" by auto
  next
    fix x assume x: "x \<in> {a..<a + m}"
    then have "x - a \<in> {0..<m}" "x = (x - a) + a" by auto
    then show "x \<in> (\<lambda>k. k + a) ` {0..<m}" by blast
  qed
  then show ?thesis by simp
qed

lemma foldl_update_range_nth:
  "k < length d \<Longrightarrow>
   foldl (\<lambda>d j. d[b + j := f j]) d (map (\<lambda>k. k + a) [0..<m]) ! k =
     (if b + a \<le> k \<and> k < b + a + m then f (k - b) else d ! k)"
  unfolding foldl_update_nth set_shifted_upt by auto

lemma row_gammaP_length:
  "length (row_gammaP p dT dE dR dI dPr V live d i) = length d"
  by (simp add: row_gammaP_def Let_def foldl_update_length)

lemma row_gammaP_nth:
  assumes n: "1 \<le> nEE p" "1 \<le> nER p" "1 \<le> nEI p" "1 \<le> nP p" and k: "k < length d"
  shows "row_gammaP p dT dE dR dI dPr V live d i ! k =
    (if (1 + nEE p + nER p + nEI p + nP p) * i \<le> k \<and>
        k < (1 + nEE p + nER p + nEI p + nP p) * i + (1 + nEE p + nER p + nEI p + nP p)
     then col_gammaP p dT dE dR dI dPr V live i (k - (1 + nEE p + nER p + nEI p + nP p) * i)
     else d ! k)"
proof -
  define b where "b = (1 + nEE p + nER p + nEI p + nP p) * i"
  define t0 where "t0 = - beta p * live (i + 1) 0 * V / N p
                + s p * live (i + 1) 0 + dT * (live i 0 - live (i + 1) 0)
                + fEE p * row_sum live (i + 1) 1 (nEE p + 1)
                + fER p * row_sum live (i + 1) (nEE p + 1) (nEE p + nER p + 1)
                + fEI p * row_sum live (i + 1) (nEE p + nER p + 1) (nEE p + nER p + nEI p + 1)"
  define t1 where "t1 = beta p * live (i + 1) 0 * V / N p
                + dT * (live i 1 - live (i + 1) 1) - dE * live (i + 1) 1
                + (s p - fEE p) * live (i + 1) 1
                - dEE p * live (i + 1) 1"
  define f2 where "f2 = (\<lambda>j. dT * (live i j - live (i + 1) j)
                + dE * (live (i + 1) (j - 1) - live (i + 1) j)
                + (s p - fEE p) * live (i + 1) j
                - dEE p * live (i + 1) j)"
  define t3 where "t3 = dE * live (i + 1) (nEE p + 1 - 1)
                + dT * (live i (nEE p + 1) - live (i + 1) (nEE p + 1))
                - dR * live (i + 1) (nEE p + 1)
                + (s p - fER p) * live (i + 1) (nEE p + 1)
                - dER p * live (i + 1) (nEE p + 1)"
  define f4 where "f4 = (\<lambda>j. dT * (live i j - live (i + 1) j)
                + dR * (live (i + 1) (j - 1) - live (i + 1) j)
                + (s p - fER p) * live (i + 1) j
                - dER p * live (i + 1) j)"
  define t5 where "t5 = dR * live (i + 1) (nEE p + nER p + 1 - 1)
                + dT * (live i (nEE p + nER p + 1) - live (i + 1) (nEE p + nER p + 1))
                - dI * live (i + 1) (nEE p + nER p + 1)
                + (s p - fEI p) * live (i + 1) (nEE p + nER p + 1)
                - dEI p * live (i + 1) (nEE p + nER p + 1)"
  define f6 where "f6 = (\<lambda>j. dT * (live i j - live (i + 1) j)
                + dI * (live (i + 1) (j - 1) - live (i + 1) j)
                + (s p - fEI p) * live (i + 1) j
                - dEI p * live (i + 1) j)"
  define t7 where "t7 = dI * live (i + 1) (nEE p + nER p + nEI p + 1 - 1)
                + dT * (live i (nEE p + nER p + nEI p + 1)
                            - live (i + 1) (nEE p + nER p + nEI p + 1))
                - dPr * live (i + 1) (nEE p + nER p + nEI p + 1)
                + s p * live (i + 1) (nEE p + nER p + nEI p + 1)
                - dP p * live (i + 1) (nEE p + nER p + nEI p + 1)"
  define f8 where "f8 = (\<lambda>j. dT * (live i j - live (i + 1) j)
                + dPr * (live (i + 1) (j - 1) - live (i + 1) j)
                + s p * live (i + 1) j
                - dP p * live (i + 1) j)"
  define d0 where "d0 = d[b + 0 := t0]"
  define d1 where "d1 = d0[b + 1 := t1]"
  define d2 where "d2 = foldl (\<lambda>d j. d[b + j := f2 j]) d1 (map (\<lambda>k. k + 2) [0..<nEE p - 1])"
  define d3 where "d3 = d2[b + (nEE p + 1) := t3]"
  define d4 where "d4 = foldl (\<lambda>d j. d[b + j := f4 j]) d3 (map (\<lambda>k. k + (nEE p + 2)) [0..<nER p - 1])"
  define d5 where "d5 = d4[b + (nEE p + nER p + 1) := t5]"
  define d6 where "d6 = foldl (\<lambda>d j. d[b + j := f6 j]) d5
                          (map (\<lambda>k. k + (nEE p + nER p + 2)) [0..<nEI p - 1])"
  define d7 where "d7 = d6[b + (nEE p + nER p + nEI p + 1) := t7]"
  define d8 where "d8 = foldl (\<lambda>d j. d[b + j := f8 j]) d7
                          (map (\<lambda>k. k + (nEE p + nER p + nEI p + 2)) [0..<nP p - 1])"
  have row: "row_gammaP p dT dE dR dI dPr V live d i = d8"
    by (simp only: row_gammaP_def Let_def d8_def d7_def d6_def d5_def d4_def d3_def d2_def
        d1_def d0_def b_def t0_def t1_def f2_def t3_def f4_def t5_def f6_def t7_def f8_def)
  have len: "length d0 = length d" "length d1 = length d" "length d2 = length d"
    "length d3 = length d" "length d4 = length d" "length d5 = length d"
    "length d6 = length d" "length d7 = length d"
    by (simp_all add: d0_def d1_def d2_def d3_def d4_def d5_def d6_def d7_def
        foldl_update_length)
  have e0: "d0 ! k = (if k = b then t0 else d ! k)" if "k < length d" for k
    using that by (simp add: d0_def nth_list_update)
  have e1: "d1 ! k = (if k = b + 1 then t1 else d0 ! k)" if "k < length d" for k
    using that len by (simp add: d1_def nth_list_update)
  have e2: "d2 ! k = (if b + 2 \<le> k \<and> k < b + 2 + (nEE p - 1) then f2 (k - b) else d1 ! k)"
    if "k < length d" for k
    using that len unfolding d2_def by (subst foldl_update_range_nth) simp_all
  have e3: "d3 ! k = (if k = b + (nEE p + 1) then t3 else d2 ! k)" if "k < length d" for k
    using that len by (simp add: d3_def nth_list_update)
  have e4: "d4 ! k = (if b + (nEE p + 2) \<le> k \<and> k < b + (nEE p + 2) + (nER p - 1)
                      then f4 (k - b) else d3 ! k)" if "k < length d" for k
    using that len unfolding d4_def by (subst foldl_update_range_nth) simp_all
  have e5: "d5 ! k = (if k = b + (nEE p + nER p + 1) then t5 else d4 ! k)"
    if "k < length d" for k
    using that len by (simp add: d5_def nth_list_update)
  have e6: "d6 ! k = (if b + (nEE p + nER p + 2) \<le> k \<and> k < b + (nEE p + nER p + 2) + (nEI p - 1)
                      then f6 (k - b) else d5 ! k)" if "k < length d" for k
    using that len unfolding d6_def by (subst foldl_update_range_nth) simp_all
  have e7: "d7 ! k = (if k = b + (nEE p + nER p + nEI p + 1) then t7 else d6 ! k)"
    if "k < length d" for k
    using that len by (simp add: d7_def nth_list_update)
  have e8: "d8 ! k = (if b + (nEE p + nER p + nEI p + 2) \<le> k \<and>
                         k < b + (nEE p + nER p + nEI p + 2) + (nP p - 1)
                      then f8 (k - b) else d7 ! k)" if "k < length d" for k
    using that len unfolding d8_def by (subst foldl_update_range_nth) simp_all
  let ?w = "1 + nEE p + nER p + nEI p + nP p"
  note es = e8 [OF k] e7 [OF k] e6 [OF k] e5 [OF k] e4 [OF k] e3 [OF k] e2 [OF k]
    e1 [OF k] e0 [OF k]
  consider (below) "k < b" | (above) "b + ?w \<le> k" | (inside) "b \<le> k" "k < b + ?w"
    by linarith
  then show ?thesis
  proof cases
    case below
    then have "d8 ! k = d ! k" by (simp add: es)
    with below show ?thesis unfolding row b_def [symmetric] by simp
  next
    case above
    then have "d8 ! k = d ! k" using n by (simp add: es)
    with above show ?thesis unfolding row b_def [symmetric] by simp
  next
    case inside
    define j where "j = k - b"
    have j: "j < ?w" "b + j = k" using inside by (simp_all add: j_def)
    have kb: "b + j < length d" using k j by simp
    note es' = e8 [OF kb] e7 [OF kb] e6 [OF kb] e5 [OF kb] e4 [OF kb] e3 [OF kb] e2 [OF kb]
      e1 [OF kb] e0 [OF kb]
    consider (c0) "j \<le> 0" | (c1) "1 \<le> j" "j \<le> 1" | (c2) "2 \<le> j" "j < nEE p + 1"
      | (c3) "nEE p + 1 \<le> j" "j \<le> nEE p + 1" | (c4) "nEE p + 2 \<le> j" "j < nEE p + nER p + 1"
      | (c5) "nEE p + nER p + 1 \<le> j" "j \<le> nEE p + nER p + 1"
      | (c6) "nEE p + nER p + 2 \<le> j" "j < nEE p + nER p + nEI p + 1"
      | (c7) "nEE p + nER p + nEI p + 1 \<le> j" "j \<le> nEE p + nER p + nEI p + 1"
      | (c8) "nEE p + nER p + nEI p + 2 \<le> j"
      by linarith
    then have "d8 ! (b + j) = col_gammaP p dT dE dR dI dPr V live i j"
    proof cases
      case c0
      then have jc: "j = 0" by simp
      have kc: "b < length d" using kb jc by simp
      have A: "d8 ! (b) = t0"
        using n by (simp add: e8 [OF kc] e7 [OF kc] e6 [OF kc] e5 [OF kc] e4 [OF kc] e3 [OF kc]
            e2 [OF kc] e1 [OF kc] e0 [OF kc])
      have "col_gammaP p dT dE dR dI dPr V live i (0) = t0"
        using n by (simp add: col_gammaP_def t0_def)
      with A show ?thesis by (simp add: jc)
    next
      case c1
      then have jc: "j = 1" by simp
      have kc: "Suc b < length d" using kb jc by simp
      have A: "d8 ! (Suc b) = t1"
        using n by (simp add: e8 [OF kc] e7 [OF kc] e6 [OF kc] e5 [OF kc] e4 [OF kc] e3 [OF kc]
            e2 [OF kc] e1 [OF kc] e0 [OF kc])
      have "col_gammaP p dT dE dR dI dPr V live i (1) = t1"
        using n by (simp add: col_gammaP_def t1_def)
      with A show ?thesis by (simp add: jc)
    next
      case c2
      then have A: "d8 ! (b + j) = f2 j" using n by (simp add: es')
      have "col_gammaP p dT dE dR dI dPr V live i j = f2 j"
        using c2 by (simp add: col_gammaP_def f2_def)
      with A show ?thesis by simp
    next
      case c3
      then have jc: "j = nEE p + 1" by simp
      have kc: "Suc (b + nEE p) < length d" using kb jc by simp
      have A: "d8 ! (Suc (b + nEE p)) = t3"
        using n by (simp add: e8 [OF kc] e7 [OF kc] e6 [OF kc] e5 [OF kc] e4 [OF kc] e3 [OF kc]
            e2 [OF kc] e1 [OF kc] e0 [OF kc])
      have "col_gammaP p dT dE dR dI dPr V live i (nEE p + 1) = t3"
        using n by (simp add: col_gammaP_def t3_def)
      with A show ?thesis by (simp add: jc)
    next
      case c4
      then have A: "d8 ! (b + j) = f4 j" using n by (simp add: es')
      have "col_gammaP p dT dE dR dI dPr V live i j = f4 j"
        using c4 by (simp add: col_gammaP_def f4_def)
      with A show ?thesis by simp
    next
      case c5
      then have jc: "j = nEE p + nER p + 1" by simp
      have kc: "Suc (b + (nEE p + nER p)) < length d" using kb jc by simp
      have A: "d8 ! (Suc (b + (nEE p + nER p))) = t5"
        using n by (simp add: e8 [OF kc] e7 [OF kc] e6 [OF kc] e5 [OF kc] e4 [OF kc] e3 [OF kc]
            e2 [OF kc] e1 [OF kc] e0 [OF kc])
      have "col_gammaP p dT dE dR dI dPr V live i (nEE p + nER p + 1) = t5"
        using n by (simp add: col_gammaP_def t5_def)
      with A show ?thesis by (simp add: jc)
    next
      case c6
      then have A: "d8 ! (b + j) = f6 j" using n by (simp add: es')
      have "col_gammaP p dT dE dR dI dPr V live i j = f6 j"
        using c6 by (simp add: col_gammaP_def f6_def)
      with A show ?thesis by simp
    next
      case c7
      then have jc: "j = nEE p + nER p + nEI p + 1" by simp
      have kc: "Suc (b + (nEE p + nER p + nEI p)) < length d" using kb jc by simp
      have A: "d8 ! (Suc (b + (nEE p + nER p + nEI p))) = t7"
        using n by (simp add: e8 [OF kc] e7 [OF kc] e6 [OF kc] e5 [OF kc] e4 [OF kc] e3 [OF kc]
            e2 [OF kc] e1 [OF kc] e0 [OF kc])
      have "col_gammaP p dT dE dR dI dPr V live i (nEE p + nER p + nEI p + 1) = t7"
        using n by (simp add: col_gammaP_def t7_def)
      with A show ?thesis by (simp add: jc)
    next
      case c8
      then have A: "d8 ! (b + j) = f8 j" using n j(1) by (simp add: es')
      have "col_gammaP p dT dE dR dI dPr V live i j = f8 j"
        using c8 by (simp add: col_gammaP_def f8_def)
      with A show ?thesis by simp
    qed
    with inside show ?thesis unfolding row b_def [symmetric] j(2) j_def by simp
  qed
qed

lemma rows_gammaP_length:
  "length (foldl (row_gammaP p dT dE dR dI dPr V live) d js) = length d"
  by (induction js arbitrary: d) (simp_all add: row_gammaP_length)

lemma rows_gammaP_nth:
  assumes n: "1 \<le> nEE p" "1 \<le> nER p" "1 \<le> nEI p" "1 \<le> nP p" and k: "k < length d"
  defines "w \<equiv> 1 + nEE p + nER p + nEI p + nP p"
  shows "foldl (row_gammaP p dT dE dR dI dPr V live) d [0..<m] ! k =
    (if k < w * m then col_gammaP p dT dE dR dI dPr V live (k div w) (k mod w) else d ! k)"
proof (induction m)
  case 0
  then show ?case by simp
next
  case (Suc m)
  let ?d = "foldl (row_gammaP p dT dE dR dI dPr V live) d [0..<m]"
  have w: "0 < w" by (simp add: w_def)
  have len: "k < length ?d" using k by (simp add: rows_gammaP_length)
  have step: "foldl (row_gammaP p dT dE dR dI dPr V live) d [0..<Suc m] ! k =
      (if w * m \<le> k \<and> k < w * m + w
       then col_gammaP p dT dE dR dI dPr V live m (k - w * m) else ?d ! k)"
    using row_gammaP_nth [OF n len, of dT dE dR dI dPr V live m] by (simp add: w_def)
  show ?case
  proof (cases "w * m \<le> k \<and> k < w * m + w")
    case True
    then obtain j where kj: "k = w * m + j" and j: "j < w"
      by (metis add.commute le_Suc_ex nat_add_left_cancel_less)
    have "k div w = m" "k mod w = j" using j w by (simp_all add: kj)
    with True show ?thesis unfolding step by (simp add: kj)
  next
    case False
    then show ?thesis unfolding step Suc.IH by auto
  qed
qed

lemma row_sum_sum: "row_sum live i a b = (\<Sum>j = a..<b. live i j)"
  by (simp add: row_sum_def interv_sum_list_conv_sum_set_nat)

lemma block_sum_sum: "block_sum live n a b = (\<Sum>i<n. \<Sum>j = a..<b. live (Suc i) j)"
proof -
  have "block_sum live n a b = (\<Sum>i = 1..<n + 1. \<Sum>j = a..<b. live i j)"
    by (simp add: block_sum_def row_sum_sum interv_sum_list_conv_sum_set_nat)
  also have "\<dots> = (\<Sum>i = 0..<n. \<Sum>j = a..<b. live (Suc i) j)"
    using sum.shift_bounds_nat_ivl [of "\<lambda>i. \<Sum>j = a..<b. live i j" 0 1 n] by simp
  finally show ?thesis by (simp add: atLeast0LessThan)
qed

lemma phase_block:
  fixes cur prv :: "nat \<Rightarrow> real"
  shows "(\<Sum>j = a..<a + Suc m.
            if j = a then inflow + dT * (prv j - cur j) - r * cur j + sf * cur j - d * cur j
            else dT * (prv j - cur j) + r * (cur (j - 1) - cur j) + sf * cur j - d * cur j)
         = inflow + dT * (\<Sum>j = a..<a + Suc m. prv j - cur j)
           + (sf - d) * (\<Sum>j = a..<a + Suc m. cur j) - r * cur (a + m)"
proof (induction m)
  case 0
  then show ?case by (simp add: algebra_simps)
next
  case (Suc m)
  have "(\<Sum>j = a..<a + Suc (Suc m).
            if j = a then inflow + dT * (prv j - cur j) - r * cur j + sf * cur j - d * cur j
            else dT * (prv j - cur j) + r * (cur (j - 1) - cur j) + sf * cur j - d * cur j)
      = (\<Sum>j = a..<a + Suc m.
            if j = a then inflow + dT * (prv j - cur j) - r * cur j + sf * cur j - d * cur j
            else dT * (prv j - cur j) + r * (cur (j - 1) - cur j) + sf * cur j - d * cur j)
        + (dT * (prv (a + Suc m) - cur (a + Suc m))
           + r * (cur (a + m) - cur (a + Suc m)) + sf * cur (a + Suc m) - d * cur (a + Suc m))"
    by simp
  also note Suc.IH
  finally show ?case by (simp add: algebra_simps)
qed

lemma sum_telescope:
  fixes F :: "nat \<Rightarrow> real"
  shows "(\<Sum>i<n. F i - F (Suc i)) = F 0 - F n"
  by (induction n) simp_all

lemma col_gammaP_row_sum:
  assumes n: "1 \<le> nEE p" "1 \<le> nER p" "1 \<le> nEI p" "1 \<le> nP p"
  shows "(\<Sum>j<1 + nEE p + nER p + nEI p + nP p. col_gammaP p dT dE dR dI dPr V live i j) =
     s p * (\<Sum>j<1 + nEE p + nER p + nEI p + nP p. live (Suc i) j)
     + dT * (\<Sum>j<1 + nEE p + nER p + nEI p + nP p. live i j - live (Suc i) j)
     - dEE p * (\<Sum>j = 1..<nEE p + 1. live (Suc i) j)
     - dER p * (\<Sum>j = nEE p + 1..<nEE p + nER p + 1. live (Suc i) j)
     - dEI p * (\<Sum>j = nEE p + nER p + 1..<nEE p + nER p + nEI p + 1. live (Suc i) j)
     - dP p * (\<Sum>j = nEE p + nER p + nEI p + 1..<nEE p + nER p + nEI p + nP p + 1. live (Suc i) j)
     - dPr * live (Suc i) (nEE p + nER p + nEI p + nP p)"
proof -
  obtain mE mR mI mP where m: "nEE p = Suc mE" "nER p = Suc mR" "nEI p = Suc mI" "nP p = Suc mP"
    using n by (metis Suc_le_D One_nat_def)
  define cur where "cur = live (Suc i)"
  define prv where "prv = live i"
  define a1 where "a1 = (1::nat)"
  define a2 where "a2 = 1 + nEE p"
  define a3 where "a3 = 1 + nEE p + nER p"
  define a4 where "a4 = 1 + nEE p + nER p + nEI p"
  define w where "w = 1 + nEE p + nER p + nEI p + nP p"
  define g where "g = col_gammaP p dT dE dR dI dPr V live i"
  have steps: "a2 = a1 + Suc mE" "a3 = a2 + Suc mR" "a4 = a3 + Suc mI" "w = a4 + Suc mP"
    by (simp_all add: a1_def a2_def a3_def a4_def w_def m)
  have split: "sum h {..<w} = h 0 + sum h {a1..<a1 + Suc mE} + sum h {a2..<a2 + Suc mR}
      + sum h {a3..<a3 + Suc mI} + sum h {a4..<a4 + Suc mP}" for h :: "nat \<Rightarrow> real"
  proof -
    have le: "0 \<le> a1" "a1 \<le> a2" "a2 \<le> a3" "a3 \<le> a4" "a4 \<le> w"
      by (simp_all add: steps)
    have "sum h {0..<w} = sum h {0..<a4} + sum h {a4..<w}"
      using sum.atLeastLessThan_concat [of 0 a4 w h] le by simp
    also have "sum h {0..<a4} = sum h {0..<a3} + sum h {a3..<a4}"
      using sum.atLeastLessThan_concat [of 0 a3 a4 h] le by simp
    also have "sum h {0..<a3} = sum h {0..<a2} + sum h {a2..<a3}"
      using sum.atLeastLessThan_concat [of 0 a2 a3 h] le by simp
    also have "sum h {0..<a2} = sum h {0..<a1} + sum h {a1..<a2}"
      using sum.atLeastLessThan_concat [of 0 a1 a2 h] le by simp
    also have "sum h {0..<a1} = h 0" by (simp add: a1_def)
    finally have "sum h {0..<w} = h 0 + sum h {a1..<a2} + sum h {a2..<a3}
        + sum h {a3..<a4} + sum h {a4..<w}" .
    then show ?thesis unfolding steps [symmetric] by (simp add: atLeast0LessThan)
  qed
  have g0: "g 0 = - beta p * cur 0 * V / N p + s p * cur 0 + dT * (prv 0 - cur 0)
      + fEE p * sum cur {a1..<a1 + Suc mE} + fER p * sum cur {a2..<a2 + Suc mR}
      + fEI p * sum cur {a3..<a3 + Suc mI}"
    by (simp add: g_def col_gammaP_def row_sum_sum cur_def prv_def a1_def a2_def a3_def m)
  have bE: "sum g {a1..<a1 + Suc mE} =
      (\<Sum>j = a1..<a1 + Suc mE.
         if j = a1 then beta p * cur 0 * V / N p + dT * (prv j - cur j) - dE * cur j
                          + (s p - fEE p) * cur j - dEE p * cur j
         else dT * (prv j - cur j) + dE * (cur (j - 1) - cur j)
              + (s p - fEE p) * cur j - dEE p * cur j)"
    by (rule sum.cong) (auto simp: g_def col_gammaP_def cur_def prv_def a1_def m)
  have bR: "sum g {a2..<a2 + Suc mR} =
      (\<Sum>j = a2..<a2 + Suc mR.
         if j = a2 then dE * cur (a2 - 1) + dT * (prv j - cur j) - dR * cur j
                          + (s p - fER p) * cur j - dER p * cur j
         else dT * (prv j - cur j) + dR * (cur (j - 1) - cur j)
              + (s p - fER p) * cur j - dER p * cur j)"
    by (rule sum.cong) (auto simp: g_def col_gammaP_def cur_def prv_def a2_def m)
  have bI: "sum g {a3..<a3 + Suc mI} =
      (\<Sum>j = a3..<a3 + Suc mI.
         if j = a3 then dR * cur (a3 - 1) + dT * (prv j - cur j) - dI * cur j
                          + (s p - fEI p) * cur j - dEI p * cur j
         else dT * (prv j - cur j) + dI * (cur (j - 1) - cur j)
              + (s p - fEI p) * cur j - dEI p * cur j)"
    by (rule sum.cong) (auto simp: g_def col_gammaP_def cur_def prv_def a3_def m)
  have bP: "sum g {a4..<a4 + Suc mP} =
      (\<Sum>j = a4..<a4 + Suc mP.
         if j = a4 then dI * cur (a4 - 1) + dT * (prv j - cur j) - dPr * cur j
                          + s p * cur j - dP p * cur j
         else dT * (prv j - cur j) + dPr * (cur (j - 1) - cur j)
              + s p * cur j - dP p * cur j)"
    by (rule sum.cong) (auto simp: g_def col_gammaP_def cur_def prv_def a4_def m)
  have ends: "a1 + mE = a2 - 1" "a2 + mR = a3 - 1" "a3 + mI = a4 - 1"
    by (simp_all add: a1_def a2_def a3_def a4_def m)
  have "sum g {..<w} =
      s p * sum cur {..<w} + dT * (\<Sum>j<w. prv j - cur j)
      - dEE p * sum cur {a1..<a1 + Suc mE} - dER p * sum cur {a2..<a2 + Suc mR}
      - dEI p * sum cur {a3..<a3 + Suc mI} - dP p * sum cur {a4..<a4 + Suc mP}
      - dPr * cur (a4 + mP)"
    unfolding split [of g] split [of cur] split [of "\<lambda>j. prv j - cur j"] g0 bE bR bI bP
      phase_block ends
    by (simp add: algebra_simps)
  then show ?thesis
    by (simp add: g_def cur_def prv_def w_def a1_def a2_def a3_def a4_def m add.commute)
qed

lemma sum_grid:
  fixes f :: "nat \<Rightarrow> nat \<Rightarrow> real"
  assumes "0 < w"
  shows "(\<Sum>k<n * w. f (k div w) (k mod w)) = (\<Sum>i<n. \<Sum>j<w. f i j)"
proof (induction n)
  case 0
  then show ?case by simp
next
  case (Suc n)
  have "(\<Sum>k<Suc n * w. f (k div w) (k mod w)) =
      (\<Sum>k = 0..<n * w. f (k div w) (k mod w)) + (\<Sum>k = n * w..<n * w + w. f (k div w) (k mod w))"
    using sum.atLeastLessThan_concat [of 0 "n * w" "n * w + w" "\<lambda>k. f (k div w) (k mod w)"]
    by (simp add: atLeast0LessThan add.commute)
  also have "(\<Sum>k = n * w..<n * w + w. f (k div w) (k mod w)) =
      (\<Sum>j = 0..<w. f ((j + n * w) div w) ((j + n * w) mod w))"
    using sum.shift_bounds_nat_ivl [of "\<lambda>k. f (k div w) (k mod w)" 0 "n * w" w]
    by (simp add: add.commute)
  also have "\<dots> = (\<Sum>j = 0..<w. f n j)"
    using assms by (intro sum.cong) simp_all
  finally show ?case using Suc.IH by (simp add: atLeast0LessThan)
qed

lemma live_at_0: "live_at Xc w 0 j = 0"
  by (simp add: live_at_def)

lemma live_at_Suc: "live_at Xc w (Suc i) j = Xc ! (i * w + j)"
  by (simp add: live_at_def)

lemma sum_live_at:
  assumes "0 < w" "n * w \<le> length Xc"
  shows "(\<Sum>i<n. \<Sum>j<w. live_at Xc w (Suc i) j) = sum_list (take (n * w) Xc)"
proof -
  have "(\<Sum>i<n. \<Sum>j<w. live_at Xc w (Suc i) j) = (\<Sum>k<n * w. Xc ! ((k div w) * w + k mod w))"
    using sum_grid [OF assms(1), where n = n and f = "\<lambda>i j. Xc ! (i * w + j)"]
    by (simp add: live_at_Suc)
  also have "\<dots> = (\<Sum>k<n * w. take (n * w) Xc ! k)"
    by (intro sum.cong) simp_all
  also have "\<dots> = sum_list (take (n * w) Xc)"
    using assms(2) by (simp add: sum_list_sum_nth atLeast0LessThan)
  finally show ?thesis .
qed

lemma body_gammaP_eq:
  fixes p :: par and Xc :: "real list"
  assumes n: "1 \<le> nEE p" "1 \<le> nER p" "1 \<le> nEI p" "1 \<le> nP p"
  defines "w \<equiv> 1 + nEE p + nER p + nEI p + nP p"
  defines "live \<equiv> live_at Xc w"
  shows "body_gammaP p dT dE dR dI dPr V Xc =
    map (\<lambda>k. col_gammaP p dT dE dR dI dPr V live (k div w) (k mod w)) [0..<nT p * w]
    @ [dEE p * block_sum live (nT p) 1 (nEE p + 1)
       + dER p * block_sum live (nT p) (nEE p + 1) (nEE p + nER p + 1)
       + dEI p * block_sum live (nT p) (nEE p + nER p + 1) (nEE p + nER p + nEI p + 1)
       + dT * row_sum live (nT p) 0 (nEE p + nER p + nEI p + 1)
       - dD p * Xc ! (length Xc - 2),
       dP p * block_sum live (nT p) (nEE p + nER p + nEI p + 1) (nEE p + nER p + nEI p + nP p + 1)
       + dT * row_sum live (nT p) (nEE p + nER p + nEI p + 1) (nEE p + nER p + nEI p + nP p + 1)
       + dPr * block_sum live (nT p) (nEE p + nER p + nEI p + nP p)
                                     (nEE p + nER p + nEI p + nP p + 1)
       - dD p * Xc ! (length Xc - 1)]"
    (is "?lhs = map ?g [0..<nT p * w] @ [?du, ?di]")
proof -
  define d0 :: "real list" where "d0 = replicate (nT p * w + 2) 0"
  define d1 where "d1 = foldl (row_gammaP p dT dE dR dI dPr V live) d0 [0..<nT p]"
  have body: "?lhs = d1[length d1 - 2 := ?du, length d1 - 1 := ?di]"
    by (simp add: body_gammaP_def Let_def d1_def d0_def w_def live_def)
  have len1: "length d1 = nT p * w + 2"
    by (simp add: d1_def d0_def rows_gammaP_length)
  have d1: "d1 ! k = ?g k" if "k < nT p * w" for k
  proof -
    have "k < length d0" using that by (simp add: d0_def)
    from rows_gammaP_nth [OF n this, of dT dE dR dI dPr V live "nT p"] that
    show ?thesis by (simp add: d1_def w_def mult.commute)
  qed
  show ?thesis
  proof (rule nth_equalityI)
    show "length ?lhs = length (map ?g [0..<nT p * w] @ [?du, ?di])"
      by (simp add: body len1)
  next
    fix k assume "k < length ?lhs"
    then have k: "k < nT p * w + 2" by (simp add: body len1)
    consider "k < nT p * w" | "k = nT p * w" | "k = nT p * w + 1" using k by linarith
    then show "?lhs ! k = (map ?g [0..<nT p * w] @ [?du, ?di]) ! k"
    proof cases
      case 1
      then show ?thesis
        unfolding body by (simp add: len1 nth_append d1 del: upt_Suc)
    next
      case 2
      then show ?thesis
        unfolding body by (simp add: len1 nth_append del: upt_Suc)
    next
      case 3
      then show ?thesis
        unfolding body by (simp add: len1 nth_append del: upt_Suc)
    qed
  qed
qed

lemma body_gammaP_mass_balance:
  fixes p :: par and Xc :: "real list"
  assumes n: "1 \<le> nEE p" "1 \<le> nER p" "1 \<le> nEI p" "1 \<le> nP p"
    and len: "length Xc = nT p * (1 + nEE p + nER p + nEI p + nP p) + 2"
  shows "sum_list (body_gammaP p dT dE dR dI dPr V Xc) =
    s p * sum_list (take (nT p * (1 + nEE p + nER p + nEI p + nP p)) Xc)
    - dD p * (Xc ! (nT p * (1 + nEE p + nER p + nEI p + nP p))
              + Xc ! (nT p * (1 + nEE p + nER p + nEI p + nP p) + 1))"
proof -
  define w where "w = 1 + nEE p + nER p + nEI p + nP p"
  define live where "live = live_at Xc w"
  define E where "E = nEE p + nER p + nEI p"
  define A where "A = (\<Sum>i<nT p. \<Sum>j<w. live (Suc i) j)"
  define T where "T = (\<Sum>i<nT p. \<Sum>j<w. live i j - live (Suc i) j)"
  define SEE where "SEE = (\<Sum>i<nT p. \<Sum>j = 1..<nEE p + 1. live (Suc i) j)"
  define SER where "SER = (\<Sum>i<nT p. \<Sum>j = nEE p + 1..<nEE p + nER p + 1. live (Suc i) j)"
  define SEI where "SEI = (\<Sum>i<nT p. \<Sum>j = nEE p + nER p + 1..<E + 1. live (Suc i) j)"
  define SP where "SP = (\<Sum>i<nT p. \<Sum>j = E + 1..<E + nP p + 1. live (Suc i) j)"
  define L where "L = (\<Sum>i<nT p. live (Suc i) (E + nP p))"
  define du where "du = dEE p * block_sum live (nT p) 1 (nEE p + 1)
       + dER p * block_sum live (nT p) (nEE p + 1) (nEE p + nER p + 1)
       + dEI p * block_sum live (nT p) (nEE p + nER p + 1) (nEE p + nER p + nEI p + 1)
       + dT * row_sum live (nT p) 0 (nEE p + nER p + nEI p + 1)
       - dD p * Xc ! (length Xc - 2)"
  define di where "di =
       dP p * block_sum live (nT p) (nEE p + nER p + nEI p + 1) (nEE p + nER p + nEI p + nP p + 1)
       + dT * row_sum live (nT p) (nEE p + nER p + nEI p + 1) (nEE p + nER p + nEI p + nP p + 1)
       + dPr * block_sum live (nT p) (nEE p + nER p + nEI p + nP p)
                                     (nEE p + nER p + nEI p + nP p + 1)
       - dD p * Xc ! (length Xc - 1)"
  have w: "0 < w" by (simp add: w_def)
  have "body_gammaP p dT dE dR dI dPr V Xc =
      map (\<lambda>k. col_gammaP p dT dE dR dI dPr V live (k div w) (k mod w)) [0..<nT p * w] @ [du, di]"
    using body_gammaP_eq [OF n, of dT dE dR dI dPr V Xc]
    by (simp only: w_def live_def du_def di_def)
  then have "sum_list (body_gammaP p dT dE dR dI dPr V Xc) =
      (\<Sum>k<nT p * w. col_gammaP p dT dE dR dI dPr V live (k div w) (k mod w)) + du + di"
    by (simp add: interv_sum_list_conv_sum_set_nat atLeast0LessThan)
  also have "(\<Sum>k<nT p * w. col_gammaP p dT dE dR dI dPr V live (k div w) (k mod w)) =
      (\<Sum>i<nT p. \<Sum>j<w. col_gammaP p dT dE dR dI dPr V live i j)"
    by (rule sum_grid [OF w])
  also have "\<dots> = s p * A + dT * T - dEE p * SEE - dER p * SER - dEI p * SEI - dP p * SP - dPr * L"
  proof -
    define a where "a = (\<lambda>i. \<Sum>j<w. live (Suc i) j)"
    define t where "t = (\<lambda>i. \<Sum>j<w. live i j - live (Suc i) j)"
    define e1 where "e1 = (\<lambda>i. \<Sum>j = 1..<nEE p + 1. live (Suc i) j)"
    define e2 where "e2 = (\<lambda>i. \<Sum>j = nEE p + 1..<nEE p + nER p + 1. live (Suc i) j)"
    define e3 where "e3 = (\<lambda>i. \<Sum>j = nEE p + nER p + 1..<E + 1. live (Suc i) j)"
    define e4 where "e4 = (\<lambda>i. \<Sum>j = E + 1..<E + nP p + 1. live (Suc i) j)"
    define l where "l = (\<lambda>i. live (Suc i) (E + nP p))"
    have row: "(\<Sum>j<w. col_gammaP p dT dE dR dI dPr V live i j) =
        s p * a i + dT * t i - dEE p * e1 i - dER p * e2 i - dEI p * e3 i - dP p * e4 i - dPr * l i"
      for i
      using col_gammaP_row_sum [OF n, of dT dE dR dI dPr V live i]
      by (simp only: w_def a_def t_def e1_def e2_def e3_def e4_def l_def E_def)
    have sums: "A = sum a {..<nT p}" "T = sum t {..<nT p}" "SEE = sum e1 {..<nT p}"
      "SER = sum e2 {..<nT p}" "SEI = sum e3 {..<nT p}" "SP = sum e4 {..<nT p}"
      "L = sum l {..<nT p}"
      by (simp_all only: A_def T_def SEE_def SER_def SEI_def SP_def L_def
          a_def t_def e1_def e2_def e3_def e4_def l_def)
    show ?thesis
      unfolding row sums by (simp only: sum_subtractf sum.distrib sum_distrib_left)
  qed
  also have "T = - (\<Sum>j<w. live (nT p) j)"
  proof -
    have "T = (\<Sum>i<nT p. (\<Sum>j<w. live i j) - (\<Sum>j<w. live (Suc i) j))"
      by (simp add: T_def sum_subtractf)
    also have "\<dots> = (\<Sum>j<w. live 0 j) - (\<Sum>j<w. live (nT p) j)"
      by (rule sum_telescope)
    finally show ?thesis by (simp add: live_def live_at_0)
  qed
  also have "du = dEE p * SEE + dER p * SER + dEI p * SEI
      + dT * (\<Sum>j = 0..<E + 1. live (nT p) j) - dD p * Xc ! (nT p * w)"
    by (simp add: du_def block_sum_sum row_sum_sum SEE_def SER_def SEI_def E_def len w_def)
  also have "di = dP p * SP + dT * (\<Sum>j = E + 1..<w. live (nT p) j) + dPr * L
      - dD p * Xc ! (nT p * w + 1)"
    by (simp add: di_def block_sum_sum row_sum_sum SP_def L_def E_def len w_def add.commute)
  also have "(\<Sum>j<w. live (nT p) j) =
      (\<Sum>j = 0..<E + 1. live (nT p) j) + (\<Sum>j = E + 1..<w. live (nT p) j)"
    using sum.atLeastLessThan_concat [of 0 "E + 1" w "live (nT p)"]
    by (simp add: atLeast0LessThan w_def E_def)
  also have "A = sum_list (take (nT p * w) Xc)"
    unfolding A_def live_def using len by (intro sum_live_at [OF w]) (simp add: w_def)
  finally show ?thesis
    by (simp add: w_def algebra_simps)
qed

lemma row_sum_single: "row_sum live i a (a + 1) = live i a"
  by (simp add: row_sum_def)

lemma row_expP_as_gammaP:
  "row_expP p dT dE dR dI V live d i = row_gammaP (p\<lparr>nP := 1\<rparr>) dT dE dR dI 0 V live d i"
  by (simp add: row_expP_def row_gammaP_def Let_def add.commute)

lemma body_expP_as_gammaP:
  "body_expP p dT dE dR dI V Xc = body_gammaP (p\<lparr>nP := 1\<rparr>) dT dE dR dI 0 V Xc"
proof -
  have rows: "row_expP p dT dE dR dI V live = row_gammaP (p\<lparr>nP := 1\<rparr>) dT dE dR dI 0 V live"
    for live
    by (intro ext) (rule row_expP_as_gammaP)
  have w: "nEE p + nER p + nEI p + 2 = 1 + nEE p + nER p + nEI p + 1" by simp
  show ?thesis
    unfolding body_expP_def body_gammaP_def rows w
    by (simp add: Let_def row_sum_single [of _ _ "nEE p + nER p + nEI p + 1", simplified])
qed



section \<open>Properties of the right-hand side\<close>

lemma clamp_neg_nonneg: "\<forall>x\<in>set X. 0 \<le> x \<Longrightarrow> clamp_neg X = X"
  by (induction X) (simp_all add: clamp_neg_def)

lemma Virus_at_ok: "onset_time p \<noteq> 0 \<Longrightarrow> \<exists>V. Virus_at p t = Inr V"
proof -
  assume "onset_time p \<noteq> 0"
  then have "Virus_at p t =
      Inr (if t < 0 then V0 p * exp (- t * t / (2 * (onset_time p)\<^sup>2))
           else if t < 24 then V0 p * exp (- c p * t)
           else if onedaydilution p \<noteq> 0 then 0.25 * V0 p * exp (- c p * t)
           else V0 p * exp (- c p * t))"
    by (simp add: Virus_at_def)
  then show ?thesis by blast
qed

lemma drug_rate_ok:
  "tau \<noteq> 0 \<Longrightarrow> onset_time p \<noteq> 0 \<Longrightarrow> \<exists>r. drug_rate p n tau a t = Inr r"
  by (simp add: drug_rate_def)

lemma ode_expP_body:
  assumes "tauT p \<noteq> 0" "tauEE p \<noteq> 0" "tauER p \<noteq> 0" "tauEI p \<noteq> 0"
    and "onset_time p \<noteq> 0" "N p \<noteq> 0"
    and "length X = nT p * (nEE p + nER p + nEI p + 2) + 2"
  shows "\<exists>dE dR V. ode_expP p X t =
    Inr (body_expP p (real (nT p) / tauT p) dE dR (real (nEI p) / tauEI p) V (clamp_neg X))"
proof -
  obtain dE where dE: "drug_rate p (nEE p) (tauEE p) (EFAV_time p) t = Inr dE"
    using drug_rate_ok assms by blast
  obtain dR where dR: "drug_rate p (nER p) (tauER p) (RALT_time p) t = Inr dR"
    using drug_rate_ok assms by blast
  obtain V where V: "Virus_at p t = Inr V"
    using Virus_at_ok assms by blast
  have "ode_expP p X t =
      Inr (body_expP p (real (nT p) / tauT p) dE dR (real (nEI p) / tauEI p) V (clamp_neg X))"
    using assms by (simp add: ode_expP_def dE dR V)
  then show ?thesis by blast
qed

lemma ode_gammaP_body:
  assumes "tauT p \<noteq> 0" "tauEE p \<noteq> 0" "tauER p \<noteq> 0" "tauEI p \<noteq> 0" "tauP p \<noteq> 0"
    and "onset_time p \<noteq> 0" "N p \<noteq> 0" "1 \<le> nP p"
    and "length X = nT p * (1 + nEE p + nER p + nEI p + nP p) + 2"
  shows "\<exists>V. ode_gammaP p X t =
    Inr (body_gammaP p (real (nT p) / tauT p) (real (nEE p) / tauEE p) (real (nER p) / tauER p)
          (real (nEI p) / tauEI p) (real (nP p) / tauP p) V (clamp_neg X))"
proof -
  obtain V where V: "Virus_at p t = Inr V"
    using Virus_at_ok assms by blast
  have "ode_gammaP p X t =
      Inr (body_gammaP p (real (nT p) / tauT p) (real (nEE p) / tauEE p) (real (nER p) / tauER p)
          (real (nEI p) / tauEI p) (real (nP p) / tauP p) V (clamp_neg X))"
    using assms by (simp add: ode_gammaP_def V)
  then show ?thesis by blast
qed

lemma body_gammaP_length:
  "length (body_gammaP p dT dE dR dI dPr V Xc) = nT p * (1 + nEE p + nER p + nEI p + nP p) + 2"
  by (simp add: body_gammaP_def Let_def rows_gammaP_length)

text \<open>
  Claim C9. Exact mass balance of the right-hand side, for both variants. With at least
  one stage in every phase, non-zero lifetimes, \<open>N\<close> and onset width (so that no division
  fails), a state of the variant's layout and non-negative entries, the evaluator returns
  a derivative of the same length whose components sum to \<open>s\<close> times the sum of the
  live-cell entries minus \<open>dD\<close> times the sum of the two trailing dead-cell entries:
  infection, progression, exchange between segments, failure and death only move cells
  between components. The stage count and the lifetime of the productive phase matter
  to the gamma variant only.
\<close>

theorem rhs_mass_balance:
  assumes counts: "1 \<le> nEE p" "1 \<le> nER p" "1 \<le> nEI p"
    and taus: "tauT p \<noteq> 0" "tauEE p \<noteq> 0" "tauER p \<noteq> 0" "tauEI p \<noteq> 0"
    and other: "onset_time p \<noteq> 0" "N p \<noteq> 0"
    and nonneg: "\<forall>x\<in>set X. 0 \<le> x"
  shows "(length X = nT p * (nEE p + nER p + nEI p + 2) + 2 \<longrightarrow>
          (\<exists>dXdt. ode_expP p X t = Inr dXdt \<and> length dXdt = length X \<and>
             sum_list dXdt = s p * sum_list (take (length X - 2) X)
                            - dD p * (X ! (length X - 2) + X ! (length X - 1)))) \<and>
         (length X = nT p * (1 + nEE p + nER p + nEI p + nP p) + 2 \<and>
          1 \<le> nP p \<and> tauP p \<noteq> 0 \<longrightarrow>
          (\<exists>dXdt. ode_gammaP p X t = Inr dXdt \<and> length dXdt = length X \<and>
             sum_list dXdt = s p * sum_list (take (length X - 2) X)
                            - dD p * (X ! (length X - 2) + X ! (length X - 1))))"
proof (intro conjI impI)
  assume len: "length X = nT p * (nEE p + nER p + nEI p + 2) + 2"
  let ?q = "p\<lparr>nP := 1\<rparr>"
  have len': "length (clamp_neg X) = nT ?q * (1 + nEE ?q + nER ?q + nEI ?q + nP ?q) + 2"
    using len by (simp add: clamp_neg_def)
  have n: "1 \<le> nEE ?q" "1 \<le> nER ?q" "1 \<le> nEI ?q" "1 \<le> nP ?q"
    using counts by simp_all
  from ode_expP_body [OF taus other len, of t] obtain dE dR V where
    ode: "ode_expP p X t =
      Inr (body_expP p (real (nT p) / tauT p) dE dR (real (nEI p) / tauEI p) V (clamp_neg X))"
    by blast
  let ?d = "body_expP p (real (nT p) / tauT p) dE dR (real (nEI p) / tauEI p) V (clamp_neg X)"
  have "length ?d = length X"
    using len by (simp add: body_expP_as_gammaP body_gammaP_length)
  moreover have "sum_list ?d = s p * sum_list (take (length X - 2) X)
      - dD p * (X ! (length X - 2) + X ! (length X - 1))"
    unfolding body_expP_as_gammaP body_gammaP_mass_balance [OF n len']
    using len by (simp add: clamp_neg_nonneg [OF nonneg])
  ultimately show "\<exists>dXdt. ode_expP p X t = Inr dXdt \<and> length dXdt = length X \<and>
      sum_list dXdt = s p * sum_list (take (length X - 2) X)
        - dD p * (X ! (length X - 2) + X ! (length X - 1))"
    using ode by simp
next
  assume g: "length X = nT p * (1 + nEE p + nER p + nEI p + nP p) + 2 \<and>
      1 \<le> nP p \<and> tauP p \<noteq> 0"
  then have len: "length X = nT p * (1 + nEE p + nER p + nEI p + nP p) + 2"
    and nP: "1 \<le> nP p" and tauP: "tauP p \<noteq> 0"
    by simp_all
  have len': "length (clamp_neg X) = nT p * (1 + nEE p + nER p + nEI p + nP p) + 2"
    using len by (simp add: clamp_neg_def)
  from ode_gammaP_body [OF taus tauP other nP len, of t] obtain V where
    ode: "ode_gammaP p X t =
      Inr (body_gammaP p (real (nT p) / tauT p) (real (nEE p) / tauEE p) (real (nER p) / tauER p)
          (real (nEI p) / tauEI p) (real (nP p) / tauP p) V (clamp_neg X))"
    by blast
  let ?d = "body_gammaP p (real (nT p) / tauT p) (real (nEE p) / tauEE p) (real (nER p) / tauER p)
          (real (nEI p) / tauEI p) (real (nP p) / tauP p) V (clamp_neg X)"
  have "length ?d = length X"
    using len by (simp add: body_gammaP_length)
  moreover have "sum_list ?d = s p * sum_list (take (length X - 2) X)
      - dD p * (X ! (length X - 2) + X ! (length X - 1))"
    unfolding body_gammaP_mass_balance [OF counts nP len']
    using len by (simp add: clamp_neg_nonneg [OF nonneg])
  ultimately show "\<exists>dXdt. ode_gammaP p X t = Inr dXdt \<and> length dXdt = length X \<and>
      sum_list dXdt = s p * sum_list (take (length X - 2) X)
        - dD p * (X ! (length X - 2) + X ! (length X - 1))"
    using ode by simp
qed

theorem rhs_mass_balance_witness:
  "1 \<le> nEE Par_one \<and> 1 \<le> nER Par_one \<and> 1 \<le> nEI Par_one \<and> 1 \<le> nP Par_one \<and>
   tauT Par_one \<noteq> 0 \<and> tauEE Par_one \<noteq> 0 \<and> tauER Par_one \<noteq> 0 \<and> tauEI Par_one \<noteq> 0 \<and>
   tauP Par_one \<noteq> 0 \<and> onset_time Par_one \<noteq> 0 \<and> N Par_one \<noteq> 0 \<and>
   length [5, 4, 3, 2, 1, 7, 9 :: real] = nT Par_one * (nEE Par_one + nER Par_one + nEI Par_one + 2) + 2 \<and>
   length [5, 4, 3, 2, 1, 7, 9 :: real]
     = nT Par_one * (1 + nEE Par_one + nER Par_one + nEI Par_one + nP Par_one) + 2 \<and>
   (\<exists>dXdt. ode_expP Par_one [5, 4, 3, 2, 1, 7, 9] 0 = Inr dXdt \<and> sum_list dXdt = - 16 / 1000) \<and>
   (\<exists>dXdt. ode_gammaP Par_one [5, 4, 3, 2, 1, 7, 9] 0 = Inr dXdt \<and> sum_list dXdt = - 16 / 1000)"
  using rhs_mass_balance [of Par_one "[5, 4, 3, 2, 1, 7, 9]" 0]
  by (auto simp: Par_one_def Par_init_def)





lemmas eval_defs = ode_expP_def ode_gammaP_def drug_rate_def Virus_at_def Par_one_def Par_init_def
  body_expP_def body_gammaP_def row_expP_def row_gammaP_def Let_def clamp_neg_def live_at_def
  row_sum_def block_sum_def




lemma row_gammaP_drug_times:
  "row_gammaP (p\<lparr>EFAV_time := a, RALT_time := b\<rparr>) dT dE dR dI dPr V live =
   row_gammaP p dT dE dR dI dPr V live"
  by (intro ext) (simp add: row_gammaP_def)

lemma ode_gammaP_drug_times:
  "ode_gammaP (p\<lparr>EFAV_time := a, RALT_time := b\<rparr>) X t = ode_gammaP p X t"
  by (simp add: ode_gammaP_def Virus_at_def body_gammaP_def row_gammaP_drug_times)

lemma exp_minus_50: "exp (- 50) < (1::real)"
  by simp

text \<open>
  Claim C1. \<open>_ode_gammaP\<close> does not modulate the progression rates of EE and ER: its
  result is the same whatever \<open>EFAV_time\<close> and \<open>RALT_time\<close> are. With efavirenz acting
  from \<open>t = 0\<close>, one cell in the first EE column and \<open>t = 1\<close>, \<open>_ode_gammaP\<close> moves cells
  from EE to ER at the constant rate \<open>nEE/tauEE = 1/6\<close>, where \<open>_ode_expP\<close> on the same
  input uses \<open>exp(-50)/6\<close>.
\<close>

theorem gammaP_ignores_drug_times:
  "ode_gammaP (p\<lparr>EFAV_time := a, RALT_time := b\<rparr>) X t = ode_gammaP p X t \<and>
   EFAV_time (Par_one\<lparr>EFAV_time := 0\<rparr>) \<le> 1 \<and>
   ode_gammaP (Par_one\<lparr>EFAV_time := 0\<rparr>) [0, 1, 0, 0, 0, 0, 0] 1 =
     Inr [1 / 1000, - (503 / 1500), 1 / 6, 0, 0, 503 / 3000, 0] \<and>
   ode_expP (Par_one\<lparr>EFAV_time := 0\<rparr>) [0, 1, 0, 0, 0, 0, 0] 1 =
     Inr [1 / 1000, - (253 / 1500) - exp (- 50) / 6, exp (- 50) / 6, 0, 0, 503 / 3000, 0] \<and>
   exp (- 50) / 6 < (1 / 6 :: real)"
proof -
  have "ode_gammaP (Par_one\<lparr>EFAV_time := 0\<rparr>) [0, 1, 0, 0, 0, 0, 0] 1 =
      Inr [1 / 1000, - (503 / 1500), 1 / 6, 0, 0, 503 / 3000, 0]"
    by (simp add: eval_defs)
  moreover have "ode_expP (Par_one\<lparr>EFAV_time := 0\<rparr>) [0, 1, 0, 0, 0, 0, 0] 1 =
      Inr [1 / 1000, - (253 / 1500) - exp (- 50) / 6, exp (- 50) / 6, 0, 0, 503 / 3000, 0]"
    by (simp add: eval_defs power2_eq_square)
  moreover have "EFAV_time (Par_one\<lparr>EFAV_time := 0\<rparr>) \<le> 1" by simp
  moreover have "exp (- 50) / 6 < (1 / 6 :: real)" using exp_minus_50 by simp
  ultimately show ?thesis using ode_gammaP_drug_times by simp
qed





section \<open>Properties of the summary\<close>

lemma foldl_keep: "foldl (\<lambda>acc j. acc) a js = a"
  by (induction js) simp_all

lemma slice_sum_zeros: "slice_sum (replicate n 0) a b = 0"
  by (simp add: slice_sum_def sum_list_replicate)

lemma summary_row_zeros: "summary_row p (replicate (Suc k) 0) = Inr (0, 0, NaN, Finite 0)"
  by (simp add: summary_row_def Let_def slice_sum_zeros foldl_keep clip0_def np_divide_def
      sum_list_replicate del: replicate_Suc)

text \<open>
  Claim C4. On a state that is all zeros (the initial state when \<open>N = 0\<close>) the summary
  has total 0 and dead 0, the dead fraction of the infected is 0 by the guard of lines
  397 to 400, and the infected fraction is the unguarded quotient of line 396, \<open>0.0/0.0\<close>
  of numpy floats: \<open>nan\<close>.
\<close>

theorem summary_zero_state_nan:
  "summary_row p (replicate (Suc k) 0) = Inr (0, 0, NaN, Finite 0) \<and>
   getICs (Par_one\<lparr>N := 0\<rparr>) = [0, 0, 0, 0, 0, 0, 0] \<and>
   getsummarydata (Par_one\<lparr>N := 0\<rparr>) [0] [getICs (Par_one\<lparr>N := 0\<rparr>)] =
     Inr [(0, 0, NaN, Finite 0)]"
proof -
  have rep: "[0, 0, 0, 0, 0, 0, 0] = replicate (Suc 6) (0::real)"
    by (simp add: eval_nat_numeral)
  have sr: "summary_row q [0, 0, 0, 0, 0, 0, 0] = Inr (0, 0, NaN, Finite 0)" for q
    unfolding rep by (rule summary_row_zeros)
  have ics: "getICs (Par_one\<lparr>N := 0\<rparr>) = [0, 0, 0, 0, 0, 0, 0]"
    by (simp add: getICs_def Par_one_def Par_init_def eval_nat_numeral)
  have "getsummarydata (Par_one\<lparr>N := 0\<rparr>) [0] [getICs (Par_one\<lparr>N := 0\<rparr>)] =
      Inr [(0, 0, NaN, Finite 0)]"
    unfolding ics by (simp add: getsummarydata_def sr)
  with ics summary_row_zeros [of p k] show ?thesis by blast
qed

end
